theory Spec2Isabelle
  imports Main
begin

section \<open>Hostel management backend: data model, access rules and domain rules\<close>

text \<open>
  A shallow embedding of \<^verbatim>\<open>backend/accounts\<close> and \<^verbatim>\<open>backend/hostel\<close>.
  The persistent store is a record of tables, each table a list of rows carrying its
  primary key; every operation that writes takes the store and returns the new one.
  The clock (\<^verbatim>\<open>timezone.now()\<close>, \<^verbatim>\<open>date.today()\<close>) is read once per
  request and passed as the argument \<open>now\<close>. Results of queries are lists in storage
  order; the \<^verbatim>\<open>Meta.ordering\<close> of a model only permutes them and is not modelled.
\<close>

subsection \<open>Dates and times\<close>

type_synonym date = int

text \<open>A point in time: the calendar day and the second within that day.\<close>

type_synonym datetime = "date \<times> nat"

definition date_of :: "datetime \<Rightarrow> date" where
  "date_of now = fst now"

subsection \<open>accounts/models.py: User\<close>

text \<open>
  Of a user the modelled code reads the primary key and the role. Fields with
  \<^verbatim>\<open>choices\<close> are datatypes; where a query compares such a field with a text, the
  function \<open>\<dots>_str\<close> gives the text the store holds for the value.
\<close>

datatype role = ADMIN | WARDEN | STUDENT

record user =
  user_id :: nat
  role :: role

definition is_admin :: "user \<Rightarrow> bool" where
  "is_admin u = (role u = ADMIN)"

definition is_warden :: "user \<Rightarrow> bool" where
  "is_warden u = (role u = WARDEN)"

definition is_student :: "user \<Rightarrow> bool" where
  "is_student u = (role u = STUDENT)"

subsection \<open>accounts/permissions.py and the framework's permission classes\<close>

text \<open>
  \<^verbatim>\<open>request.user\<close> is \<open>None\<close> for an anonymous request (whose
  \<^verbatim>\<open>is_authenticated\<close> is false) and \<open>Some u\<close> for a logged-in user.
\<close>

datatype permission = AllowAny | IsAuthenticated | IsAdmin | IsWarden | IsStudent | IsAdminOrWarden

fun has_permission :: "permission \<Rightarrow> user option \<Rightarrow> bool" where
  "has_permission AllowAny _ = True"
| "has_permission IsAuthenticated None = False"
| "has_permission IsAuthenticated (Some u) = True"
| "has_permission IsAdmin None = False"
| "has_permission IsAdmin (Some u) = is_admin u"
| "has_permission IsWarden None = False"
| "has_permission IsWarden (Some u) = is_warden u"
| "has_permission IsStudent None = False"
| "has_permission IsStudent (Some u) = is_student u"
| "has_permission IsAdminOrWarden None = False"
| "has_permission IsAdminOrWarden (Some u) = (is_admin u \<or> is_warden u)"

datatype error =
    NotAuthenticated          \<comment> \<open>permission check failed, anonymous request\<close>
  | PermissionDenied          \<comment> \<open>permission check failed, authenticated request (403)\<close>
  | Http404                   \<comment> \<open>\<^verbatim>\<open>get_object\<close> found no row\<close>
  | Response_404 string       \<comment> \<open>\<^verbatim>\<open>Response({'error': ...}, status=404)\<close>\<close>
  | Response_400 string       \<comment> \<open>\<^verbatim>\<open>Response({'error': ...}, status=400)\<close>\<close>
  | IntegrityError            \<comment> \<open>the store refused a write (constraint violated)\<close>
  | ValueError                \<comment> \<open>a lookup value that is not a number\<close>
  | OverflowError             \<comment> \<open>a lookup number the store's integer column cannot hold\<close>
  | ValidationError string    \<comment> \<open>rejected input, with the key the error is reported under\<close>
  | KeyError string           \<comment> \<open>a serializer field whose key the dictionary lacks\<close>
  | TypeError                 \<comment> \<open>\<^verbatim>\<open>int()\<close> of a value that is no number\<close>
  | InvalidOperation          \<comment> \<open>\<^verbatim>\<open>decimal.InvalidOperation\<close>\<close>
  | AssertionError            \<comment> \<open>a failed \<^verbatim>\<open>assert\<close> of the framework\<close>

text \<open>
  \<^verbatim>\<open>APIView.check_permissions\<close>: every permission returned by the view's
  \<^verbatim>\<open>get_permissions()\<close> must grant the request.
\<close>

definition check_permissions :: "permission list \<Rightarrow> user option \<Rightarrow> error option" where
  "check_permissions perms u =
     (if list_all (\<lambda>p. has_permission p u) perms then None
      else if u = None then Some NotAuthenticated else Some PermissionDenied)"

subsection \<open>hostel/models.py: Room\<close>

datatype room_status = VACANT | OCCUPIED | MAINTENANCE

fun room_status_str :: "room_status \<Rightarrow> string" where
  "room_status_str VACANT = ''vacant''"
| "room_status_str OCCUPIED = ''occupied''"
| "room_status_str MAINTENANCE = ''maintenance''"

datatype room_type = SINGLE | DOUBLE | TRIPLE

fun room_type_str :: "room_type \<Rightarrow> string" where
  "room_type_str SINGLE = ''single''"
| "room_type_str DOUBLE = ''double''"
| "room_type_str TRIPLE = ''triple''"

record room =
  room_id :: nat
  room_no :: string
  room_type :: room_type
  capacity :: int
  room_floor :: int
  room_status :: room_status
  description :: "string option"
  room_created_at :: datetime
  room_updated_at :: datetime

subsection \<open>hostel/models.py: StudentProfile\<close>

record student_profile =
  sp_id :: nat
  sp_user :: nat                     \<comment> \<open>\<^verbatim>\<open>user\<close>, one-to-one\<close>
  sp_room :: "nat option"            \<comment> \<open>\<^verbatim>\<open>room\<close>, nullable foreign key\<close>
  contact :: string
  emergency_contact :: string
  father_name :: string
  address :: string
  date_of_birth :: "date option"
  date_of_joining :: date
  is_active :: bool
  sp_created_at :: datetime
  sp_updated_at :: datetime

subsection \<open>hostel/models.py: Fee\<close>

datatype fee_status = UNPAID | PAID | OVERDUE

fun fee_status_str :: "fee_status \<Rightarrow> string" where
  "fee_status_str UNPAID = ''unpaid''"
| "fee_status_str PAID = ''paid''"
| "fee_status_str OVERDUE = ''overdue''"

text \<open>
  \<^verbatim>\<open>amount\<close> is a decimal with two decimal places; the model counts it in
  hundredths.
\<close>

record fee =
  fee_id :: nat
  fee_student :: nat                 \<comment> \<open>\<^verbatim>\<open>student\<close>, the owning StudentProfile\<close>
  amount :: int
  due_date :: date
  paid_date :: "date option"
  fee_status :: fee_status
  payment_method :: "string option"
  fee_notes :: "string option"
  fee_created_at :: datetime
  fee_updated_at :: datetime

subsection \<open>hostel/models.py: Attendance\<close>

datatype attendance_status = PRESENT | ABSENT | LEAVE

fun attendance_status_str :: "attendance_status \<Rightarrow> string" where
  "attendance_status_str PRESENT = ''present''"
| "attendance_status_str ABSENT = ''absent''"
| "attendance_status_str LEAVE = ''leave''"

record attendance =
  att_id :: nat
  att_student :: nat
  att_date :: date
  att_status :: attendance_status
  marked_by :: "nat option"
  att_notes :: "string option"
  att_created_at :: datetime

subsection \<open>hostel/models.py: Visitor, Complaint, MessMenu, ContactMessage\<close>

record visitor =
  visitor_id :: nat
  visitor_name :: string
  visitor_student :: nat
  purpose :: string
  visitor_contact :: string
  in_time :: datetime
  out_time :: "datetime option"
  approved_by :: "nat option"
  visitor_created_at :: datetime

datatype complaint_status = PENDING | IN_PROGRESS | RESOLVED

fun complaint_status_str :: "complaint_status \<Rightarrow> string" where
  "complaint_status_str PENDING = ''pending''"
| "complaint_status_str IN_PROGRESS = ''in_progress''"
| "complaint_status_str RESOLVED = ''resolved''"

datatype priority = LOW | MEDIUM | HIGH

datatype category = ELECTRICAL | PLUMBING | CLEANING | MAINTENANCE_WORK | OTHER

record complaint =
  complaint_id :: nat
  complaint_student :: nat
  title :: string
  complaint_description :: string
  category :: category
  priority :: priority
  complaint_status :: complaint_status
  resolved_by :: "nat option"
  resolution_notes :: "string option"
  complaint_created_at :: datetime
  complaint_updated_at :: datetime

record mess_menu =
  menu_id :: nat
  menu_date :: date
  breakfast :: string
  lunch :: string
  snacks :: "string option"
  dinner :: string
  menu_created_at :: datetime
  menu_updated_at :: datetime

record contact_message =
  cm_id :: nat
  cm_name :: string
  cm_email :: string
  cm_role :: string
  cm_message :: string
  is_resolved :: bool
  cm_created_at :: datetime

subsection \<open>The store\<close>

record db =
  rooms :: "room list"
  students :: "student_profile list"
  fees :: "fee list"
  attendances :: "attendance list"
  visitors :: "visitor list"
  complaints :: "complaint list"
  mess_menus :: "mess_menu list"
  contact_messages :: "contact_message list"

text \<open>
  \<^verbatim>\<open>Model.objects.get(id=k)\<close>: the row with that primary key, \<open>None\<close> for
  \<^verbatim>\<open>DoesNotExist\<close>.
\<close>

definition objects_get :: "('a \<Rightarrow> nat) \<Rightarrow> int \<Rightarrow> 'a list \<Rightarrow> 'a option" where
  "objects_get pk k table = find (\<lambda>x. int (pk x) = k) table"

text \<open>
  \<^verbatim>\<open>Model.save()\<close> on the table: the row with the same primary key is replaced;
  when there is none the row is inserted.
\<close>

definition save_row :: "('a \<Rightarrow> nat) \<Rightarrow> 'a \<Rightarrow> 'a list \<Rightarrow> 'a list" where
  "save_row pk r table =
     (if list_ex (\<lambda>x. pk x = pk r) table
      then map (\<lambda>x. if pk x = pk r then r else x) table
      else table @ [r])"

subsection \<open>Requests\<close>

record request =
  req_user :: "user option"
  query_params :: "string \<Rightarrow> string option"

text \<open>
  \<^verbatim>\<open>str.lower()\<close> on the ASCII letters, which is all the comparison with
  \<^verbatim>\<open>'true'\<close> below depends on.
\<close>

definition lower_char :: "char \<Rightarrow> char" where
  "lower_char c =
     (if 65 \<le> (of_char c :: nat) \<and> (of_char c :: nat) \<le> 90
      then char_of ((of_char c :: nat) + 32) else c)"

definition lower :: "string \<Rightarrow> string" where
  "lower s = map lower_char s"

text \<open>
  The number a lookup value denotes (\<^verbatim>\<open>int(value)\<close> in the field's
  \<^verbatim>\<open>get_prep_value\<close>); \<open>None\<close> stands for the \<^verbatim>\<open>ValueError\<close>. Python reads
  a decimal text as: whitespace, an optional sign, digits with single underscores between
  them, whitespace. The model does so for ASCII texts; digits and whitespace outside ASCII,
  which Python also reads, are rejected by the model.
\<close>

definition is_digit :: "char \<Rightarrow> bool" where
  "is_digit c = (48 \<le> (of_char c :: nat) \<and> (of_char c :: nat) \<le> 57)"

definition is_space :: "char \<Rightarrow> bool" where
  "is_space c = ((9 \<le> (of_char c :: nat) \<and> (of_char c :: nat) \<le> 13)
                 \<or> (28 \<le> (of_char c :: nat) \<and> (of_char c :: nat) \<le> 32))"

definition strip :: "string \<Rightarrow> string" where
  "strip s = rev (dropWhile is_space (rev (dropWhile is_space s)))"

fun digits_value :: "string \<Rightarrow> nat \<Rightarrow> nat option" where
  "digits_value [] acc = Some acc"
| "digits_value (c # cs) acc =
     (if is_digit c then digits_value cs (10 * acc + ((of_char c :: nat) - 48))
      else if c = CHR ''_'' then
        (case cs of
           [] \<Rightarrow> None
         | d # ds \<Rightarrow> if is_digit d then digits_value cs acc else None)
      else None)"

definition unsigned_value :: "string \<Rightarrow> nat option" where
  "unsigned_value s =
     (case s of
        [] \<Rightarrow> None
      | c # cs \<Rightarrow> if is_digit c then digits_value s 0 else None)"

definition int_of_text :: "string \<Rightarrow> int option" where
  "int_of_text text =
     (case strip text of
        [] \<Rightarrow> None
      | c # cs \<Rightarrow>
          if c = CHR ''-'' then map_option (\<lambda>n. - int n) (unsigned_value cs)
          else if c = CHR ''+'' then map_option int (unsigned_value cs)
          else map_option int (unsigned_value (c # cs)))"

text \<open>
  \<^verbatim>\<open>queryset.filter(student_id=text)\<close>, \<^verbatim>\<open>fk\<close> reading the foreign key. The
  key column holds signed 64-bit numbers; a number outside that range cannot be handed to
  the store.
\<close>

definition filter_student_id :: "('a \<Rightarrow> nat) \<Rightarrow> string \<Rightarrow> 'a list \<Rightarrow> error + 'a list" where
  "filter_student_id fk text queryset =
     (case int_of_text text of
        None \<Rightarrow> Inl ValueError
      | Some n \<Rightarrow>
          if n < - (2 ^ 63) \<or> 2 ^ 63 \<le> n then Inl OverflowError
          else Inr (filter (\<lambda>x. int (fk x) = n) queryset))"

text \<open>
  \<^verbatim>\<open>hasattr(user, 'student_profile')\<close> and \<^verbatim>\<open>user.student_profile\<close>: the
  profile whose one-to-one \<^verbatim>\<open>user\<close> is this user.
\<close>

definition student_profile :: "db \<Rightarrow> user \<Rightarrow> student_profile option" where
  "student_profile d u = find (\<lambda>p. sp_user p = user_id u) (students d)"

text \<open>
  \<^verbatim>\<open>GenericAPIView.get_object\<close>: the row of the view's queryset with primary key
  \<^verbatim>\<open>pk\<close>, or \<^verbatim>\<open>Http404\<close>.
\<close>

definition get_object :: "('a \<Rightarrow> nat) \<Rightarrow> nat \<Rightarrow> 'a list \<Rightarrow> error + 'a" where
  "get_object pk k queryset =
     (case find (\<lambda>x. pk x = k) queryset of None \<Rightarrow> Inl Http404 | Some x \<Rightarrow> Inr x)"

subsection \<open>hostel/models.py: behaviour of Room\<close>

text \<open>\<^verbatim>\<open>self.students.filter(is_active=True).count()\<close>\<close>

definition current_occupancy :: "db \<Rightarrow> room \<Rightarrow> nat" where
  "current_occupancy d self =
     length (filter (\<lambda>s. sp_room s = Some (room_id self) \<and> is_active s) (students d))"

definition is_available :: "db \<Rightarrow> room \<Rightarrow> bool" where
  "is_available d self =
     (room_status self = VACANT \<and> int (current_occupancy d self) < capacity self)"

text \<open>
  \<^verbatim>\<open>Room.save()\<close> is the framework's: it writes every column of the in-memory row,
  with \<^verbatim>\<open>updated_at\<close> (\<^verbatim>\<open>auto_now\<close>) set to the clock, and
  \<^verbatim>\<open>created_at\<close> (\<^verbatim>\<open>auto_now_add\<close>) too when the row is new.
\<close>

definition Room_save :: "datetime \<Rightarrow> db \<Rightarrow> room \<Rightarrow> db" where
  "Room_save now d self =
     (let row = (if list_ex (\<lambda>x. room_id x = room_id self) (rooms d)
                 then self\<lparr>room_updated_at := now\<rparr>
                 else self\<lparr>room_created_at := now, room_updated_at := now\<rparr>)
      in d\<lparr>rooms := save_row room_id row (rooms d)\<rparr>)"

subsection \<open>hostel/models.py: StudentProfile.save\<close>

text \<open>
  \<^verbatim>\<open>super().save()\<close>: the profile row is written, with \<^verbatim>\<open>updated_at\<close>
  (and \<^verbatim>\<open>created_at\<close> of a new row) set to the clock. The store refuses a row whose
  \<^verbatim>\<open>room\<close> names no room (foreign key), and then nothing is written. The
  one-to-one \<^verbatim>\<open>user\<close> column is written by no operation modelled here, and its
  constraint is not modelled.
\<close>

definition StudentProfile_super_save :: "datetime \<Rightarrow> db \<Rightarrow> student_profile \<Rightarrow> error + db" where
  "StudentProfile_super_save now d self =
     (let row = (if list_ex (\<lambda>x. sp_id x = sp_id self) (students d)
                 then self\<lparr>sp_updated_at := now\<rparr>
                 else self\<lparr>sp_created_at := now, sp_updated_at := now\<rparr>);
          d1 = d\<lparr>students := save_row sp_id row (students d)\<rparr>
      in case sp_room self of
           None \<Rightarrow> Inr d1
         | Some rid \<Rightarrow>
             (case objects_get room_id (int rid) (rooms d) of
                None \<Rightarrow> Inl IntegrityError
              | Some room \<Rightarrow> Inr d1))"

text \<open>
  \<^verbatim>\<open>StudentProfile.save\<close>. \<^verbatim>\<open>self.room\<close> is the room row the foreign key
  names, as the request loaded it from this store. (After a successful
  \<^verbatim>\<open>super().save()\<close> that row exists, so the inner \<open>None\<close> case is never taken.)
\<close>

definition StudentProfile_save :: "datetime \<Rightarrow> db \<Rightarrow> student_profile \<Rightarrow> error + db" where
  "StudentProfile_save now d self =
     (case StudentProfile_super_save now d self of
        Inl e \<Rightarrow> Inl e
      | Inr d1 \<Rightarrow>
          (case sp_room self of
             None \<Rightarrow> Inr d1
           | Some rid \<Rightarrow>
               (if is_active self then
                  (case objects_get room_id (int rid) (rooms d1) of
                     None \<Rightarrow> Inl IntegrityError
                   | Some room \<Rightarrow>
                       (if 0 < current_occupancy d1 room \<and> room_status room = VACANT
                        then Inr (Room_save now d1 (room\<lparr>room_status := OCCUPIED\<rparr>))
                        else Inr d1))
                else Inr d1)))"

subsection \<open>hostel/models.py: Fee.save\<close>

text \<open>
  \<^verbatim>\<open>Fee.save\<close> returns the in-memory fee as the method leaves it, and the store
  after \<^verbatim>\<open>super().save()\<close>.
\<close>

definition Fee_save :: "datetime \<Rightarrow> db \<Rightarrow> fee \<Rightarrow> fee \<times> db" where
  "Fee_save now d self =
     (let self1 = (if fee_status self = UNPAID \<and> due_date self < date_of now
                   then self\<lparr>fee_status := OVERDUE\<rparr> else self);
          row = (if list_ex (\<lambda>x. fee_id x = fee_id self1) (fees d)
                 then self1\<lparr>fee_updated_at := now\<rparr>
                 else self1\<lparr>fee_created_at := now, fee_updated_at := now\<rparr>)
      in (row, d\<lparr>fees := save_row fee_id row (fees d)\<rparr>))"

subsection \<open>hostel/models.py: Attendance and its \<^verbatim>\<open>unique_together\<close>\<close>

text \<open>
  \<^verbatim>\<open>unique_together = ['student', 'date']\<close>: the store holds a unique constraint
  on the two columns and refuses a write that would give two rows the same pair.
\<close>

definition unique_together_taken :: "attendance \<Rightarrow> attendance list \<Rightarrow> bool" where
  "unique_together_taken self table =
     list_ex (\<lambda>x. att_id x \<noteq> att_id self \<and> att_student x = att_student self
                   \<and> att_date x = att_date self) table"

definition Attendance_save :: "datetime \<Rightarrow> db \<Rightarrow> attendance \<Rightarrow> error + db" where
  "Attendance_save now d self =
     (if unique_together_taken self (attendances d) then Inl IntegrityError
      else
        (let row = (if list_ex (\<lambda>x. att_id x = att_id self) (attendances d)
                    then self else self\<lparr>att_created_at := now\<rparr>)
         in Inr (d\<lparr>attendances := save_row att_id row (attendances d)\<rparr>)))"

text \<open>
  The primary key the store gives a new row: a key no row of the table has. The model
  takes the successor of the largest key in the table; the store's own counter can give a
  larger one (it does not reuse the key of a deleted row).
\<close>

definition next_id :: "('a \<Rightarrow> nat) \<Rightarrow> 'a list \<Rightarrow> nat" where
  "next_id pk table = Suc (fold max (map pk table) 0)"

text \<open>\<^verbatim>\<open>Attendance.objects.create(...)\<close>: a new row, whatever id the fields carry.\<close>

definition Attendance_objects_create :: "datetime \<Rightarrow> db \<Rightarrow> attendance \<Rightarrow> (error + attendance) \<times> db" where
  "Attendance_objects_create now d vals =
     (let self = vals\<lparr>att_id := next_id att_id (attendances d), att_created_at := now\<rparr>
      in case Attendance_save now d self of
           Inl e \<Rightarrow> (Inl e, d)
         | Inr d1 \<Rightarrow> (Inr self, d1))"

definition Attendance_delete :: "db \<Rightarrow> attendance \<Rightarrow> db" where
  "Attendance_delete d self =
     d\<lparr>attendances := filter (\<lambda>x. att_id x \<noteq> att_id self) (attendances d)\<rparr>"

subsection \<open>hostel/views.py: permissions of the view sets\<close>

text \<open>
  Each view set overrides \<^verbatim>\<open>get_permissions\<close>; the framework's dispatch asks this
  method, with \<^verbatim>\<open>self.action\<close> the name of the action being served, for the
  permissions of every request to the view set, the extra actions included.
\<close>

definition RoomViewSet_get_permissions :: "string \<Rightarrow> permission list" where
  "RoomViewSet_get_permissions action =
     (if action \<in> set [''create'', ''update'', ''partial_update'', ''destroy'']
      then [IsAdmin] else [IsAuthenticated])"

definition StudentProfileViewSet_get_permissions :: "string \<Rightarrow> permission list" where
  "StudentProfileViewSet_get_permissions action =
     (if action \<in> set [''create'', ''update'', ''partial_update'', ''destroy'']
      then [IsAdmin] else [IsAuthenticated])"

definition FeeViewSet_get_permissions :: "string \<Rightarrow> permission list" where
  "FeeViewSet_get_permissions action =
     (if action \<in> set [''create'', ''update'', ''partial_update'', ''destroy'']
      then [IsAdmin] else [IsAuthenticated])"

definition AttendanceViewSet_get_permissions :: "string \<Rightarrow> permission list" where
  "AttendanceViewSet_get_permissions action =
     (if action \<in> set [''create'', ''update'', ''partial_update''] then [IsAdminOrWarden]
      else if action = ''destroy'' then [IsAdmin]
      else [IsAuthenticated])"

definition VisitorViewSet_get_permissions :: "string \<Rightarrow> permission list" where
  "VisitorViewSet_get_permissions action =
     (if action \<in> set [''create'', ''update'', ''partial_update'', ''destroy'']
      then [IsAdminOrWarden] else [IsAuthenticated])"

definition ComplaintViewSet_get_permissions :: "string \<Rightarrow> permission list" where
  "ComplaintViewSet_get_permissions action =
     (if action = ''create'' then [IsAuthenticated]
      else if action \<in> set [''update'', ''partial_update'', ''destroy''] then [IsAdminOrWarden]
      else [IsAuthenticated])"

definition MessMenuViewSet_get_permissions :: "string \<Rightarrow> permission list" where
  "MessMenuViewSet_get_permissions action =
     (if action \<in> set [''create'', ''update'', ''partial_update'', ''destroy'']
      then [IsAdmin] else [IsAuthenticated])"

definition ContactMessageViewSet_get_permissions :: "string \<Rightarrow> permission list" where
  "ContactMessageViewSet_get_permissions action =
     (if action = ''create'' then [AllowAny] else [IsAdmin])"

text \<open>
  The start of a request: the permission check, then the logged-in user the handler
  reads. (Every handler modelled below sits behind a permission that an anonymous
  request fails, so the inner \<open>None\<close> case is never taken.)
\<close>

definition permitted :: "permission list \<Rightarrow> request \<Rightarrow> error + user" where
  "permitted perms request =
     (case check_permissions perms (req_user request) of
        Some e \<Rightarrow> Inl e
      | None \<Rightarrow> (case req_user request of None \<Rightarrow> Inl NotAuthenticated | Some u \<Rightarrow> Inr u))"

subsection \<open>hostel/views.py: query sets\<close>

text \<open>
  \<^verbatim>\<open>value = query_params.get(key, None)\<close> followed by
  \<^verbatim>\<open>if value: queryset = queryset.filter(...)\<close>: an absent and an empty value
  are both false in Python and leave the query set as it is.
\<close>

definition filter_if :: "string option \<Rightarrow> (string \<Rightarrow> 'a \<Rightarrow> bool) \<Rightarrow> 'a list \<Rightarrow> 'a list" where
  "filter_if param P queryset =
     (case param of
        None \<Rightarrow> queryset
      | Some v \<Rightarrow> if v = [] then queryset else filter (P v) queryset)"

text \<open>\<^verbatim>\<open>if student_id: queryset = queryset.filter(student_id=student_id)\<close>\<close>

definition filter_student_id_if :: "string option \<Rightarrow> ('a \<Rightarrow> nat) \<Rightarrow> 'a list \<Rightarrow> error + 'a list" where
  "filter_student_id_if param fk queryset =
     (case param of
        None \<Rightarrow> Inr queryset
      | Some v \<Rightarrow> if v = [] then Inr queryset else filter_student_id fk v queryset)"

text \<open>
  \<^verbatim>\<open>if date_filter: queryset = queryset.filter(date=date_filter)\<close>. The day a text
  denotes is the framework's reading of it, the argument \<open>to_date\<close>; \<open>None\<close> is its
  \<^verbatim>\<open>ValidationError\<close>.
\<close>

definition filter_date_if ::
  "(string \<Rightarrow> date option) \<Rightarrow> string option \<Rightarrow> ('a \<Rightarrow> date) \<Rightarrow> 'a list \<Rightarrow> error + 'a list" where
  "filter_date_if to_date param col queryset =
     (case param of
        None \<Rightarrow> Inr queryset
      | Some v \<Rightarrow>
          if v = [] then Inr queryset
          else (case to_date v of
                  None \<Rightarrow> Inl (ValidationError ''date'')
                | Some day \<Rightarrow> Inr (filter (\<lambda>x. col x = day) queryset)))"

text \<open>
  \<^verbatim>\<open>if user.is_student and hasattr(user, 'student_profile'):
      queryset = queryset.filter(student=user.student_profile)\<close>
\<close>

definition own_records :: "db \<Rightarrow> user \<Rightarrow> ('a \<Rightarrow> nat) \<Rightarrow> 'a list \<Rightarrow> 'a list" where
  "own_records d u fk queryset =
     (if is_student u then
        (case student_profile d u of
           None \<Rightarrow> queryset
         | Some profile \<Rightarrow> filter (\<lambda>x. fk x = sp_id profile) queryset)
      else queryset)"

definition RoomViewSet_get_queryset :: "db \<Rightarrow> (string \<Rightarrow> string option) \<Rightarrow> room list" where
  "RoomViewSet_get_queryset d params =
     (let queryset = rooms d;
          queryset = filter_if (params ''status'')
                       (\<lambda>v r. room_status_str (room_status r) = v) queryset;
          queryset = filter_if (params ''type'')
                       (\<lambda>v r. room_type_str (room_type r) = v) queryset
      in queryset)"

definition StudentProfileViewSet_get_queryset ::
  "db \<Rightarrow> user \<Rightarrow> (string \<Rightarrow> string option) \<Rightarrow> student_profile list" where
  "StudentProfileViewSet_get_queryset d u params =
     (let queryset = students d;
          queryset = (if is_student u then filter (\<lambda>p. sp_user p = user_id u) queryset
                      else queryset);
          queryset = (case params ''is_active'' of
                        None \<Rightarrow> queryset
                      | Some v \<Rightarrow> filter (\<lambda>p. is_active p = (lower v = ''true'')) queryset);
          queryset = filter_if (params ''fee_status'')
                       (\<lambda>v p. list_ex (\<lambda>f. fee_student f = sp_id p
                                          \<and> fee_status_str (fee_status f) = v) (fees d))
                       queryset
      in queryset)"

definition FeeViewSet_get_queryset ::
  "db \<Rightarrow> user \<Rightarrow> (string \<Rightarrow> string option) \<Rightarrow> error + fee list" where
  "FeeViewSet_get_queryset d u params =
     (let queryset = fees d;
          queryset = own_records d u fee_student queryset;
          queryset = filter_if (params ''status'')
                       (\<lambda>v f. fee_status_str (fee_status f) = v) queryset
      in filter_student_id_if (params ''student_id'') fee_student queryset)"

definition AttendanceViewSet_get_queryset ::
  "(string \<Rightarrow> date option) \<Rightarrow> db \<Rightarrow> user \<Rightarrow> (string \<Rightarrow> string option) \<Rightarrow> error + attendance list" where
  "AttendanceViewSet_get_queryset to_date d u params =
     (let queryset = attendances d;
          queryset = own_records d u att_student queryset
      in case filter_date_if to_date (params ''date'') att_date queryset of
           Inl e \<Rightarrow> Inl e
         | Inr queryset \<Rightarrow>
             (case filter_student_id_if (params ''student_id'') att_student queryset of
                Inl e \<Rightarrow> Inl e
              | Inr queryset \<Rightarrow>
                  Inr (filter_if (params ''status'')
                         (\<lambda>v a. attendance_status_str (att_status a) = v) queryset)))"

definition VisitorViewSet_get_queryset ::
  "datetime \<Rightarrow> db \<Rightarrow> user \<Rightarrow> (string \<Rightarrow> string option) \<Rightarrow> error + visitor list" where
  "VisitorViewSet_get_queryset now d u params =
     (let queryset = visitors d;
          queryset = own_records d u visitor_student queryset
      in case filter_student_id_if (params ''student_id'') visitor_student queryset of
           Inl e \<Rightarrow> Inl e
         | Inr queryset \<Rightarrow>
             Inr (filter_if (params ''today'')
                    (\<lambda>v x. date_of (in_time x) = date_of now) queryset))"

definition ComplaintViewSet_get_queryset ::
  "db \<Rightarrow> user \<Rightarrow> (string \<Rightarrow> string option) \<Rightarrow> error + complaint list" where
  "ComplaintViewSet_get_queryset d u params =
     (let queryset = complaints d;
          queryset = own_records d u complaint_student queryset;
          queryset = filter_if (params ''status'')
                       (\<lambda>v c. complaint_status_str (complaint_status c) = v) queryset
      in filter_student_id_if (params ''student_id'') complaint_student queryset)"

definition MessMenuViewSet_get_queryset ::
  "(string \<Rightarrow> date option) \<Rightarrow> db \<Rightarrow> (string \<Rightarrow> string option) \<Rightarrow> error + mess_menu list" where
  "MessMenuViewSet_get_queryset to_date d params =
     filter_date_if to_date (params ''date'') menu_date (mess_menus d)"

subsection \<open>hostel/views.py: list and retrieve\<close>

definition bind_result :: "error + 'a \<Rightarrow> ('a \<Rightarrow> error + 'b) \<Rightarrow> error + 'b" where
  "bind_result r f = (case r of Inl e \<Rightarrow> Inl e | Inr x \<Rightarrow> f x)"

text \<open>
  A list request returns the rows of the view set's query set, a retrieve request the row
  of it with the given primary key. (Search, ordering and pagination of the framework
  come after and are not modelled.)
\<close>

definition RoomViewSet_list :: "db \<Rightarrow> request \<Rightarrow> error + room list" where
  "RoomViewSet_list d request =
     bind_result (permitted (RoomViewSet_get_permissions ''list'') request)
       (\<lambda>u. Inr (RoomViewSet_get_queryset d (query_params request)))"

definition RoomViewSet_retrieve :: "db \<Rightarrow> request \<Rightarrow> nat \<Rightarrow> error + room" where
  "RoomViewSet_retrieve d request pk =
     bind_result (permitted (RoomViewSet_get_permissions ''retrieve'') request)
       (\<lambda>u. get_object room_id pk (RoomViewSet_get_queryset d (query_params request)))"

definition StudentProfileViewSet_list :: "db \<Rightarrow> request \<Rightarrow> error + student_profile list" where
  "StudentProfileViewSet_list d request =
     bind_result (permitted (StudentProfileViewSet_get_permissions ''list'') request)
       (\<lambda>u. Inr (StudentProfileViewSet_get_queryset d u (query_params request)))"

definition StudentProfileViewSet_retrieve :: "db \<Rightarrow> request \<Rightarrow> nat \<Rightarrow> error + student_profile" where
  "StudentProfileViewSet_retrieve d request pk =
     bind_result (permitted (StudentProfileViewSet_get_permissions ''retrieve'') request)
       (\<lambda>u. get_object sp_id pk (StudentProfileViewSet_get_queryset d u (query_params request)))"

definition FeeViewSet_list :: "db \<Rightarrow> request \<Rightarrow> error + fee list" where
  "FeeViewSet_list d request =
     bind_result (permitted (FeeViewSet_get_permissions ''list'') request)
       (\<lambda>u. FeeViewSet_get_queryset d u (query_params request))"

definition FeeViewSet_retrieve :: "db \<Rightarrow> request \<Rightarrow> nat \<Rightarrow> error + fee" where
  "FeeViewSet_retrieve d request pk =
     bind_result (permitted (FeeViewSet_get_permissions ''retrieve'') request)
       (\<lambda>u. bind_result (FeeViewSet_get_queryset d u (query_params request))
               (get_object fee_id pk))"

definition AttendanceViewSet_list ::
  "(string \<Rightarrow> date option) \<Rightarrow> db \<Rightarrow> request \<Rightarrow> error + attendance list" where
  "AttendanceViewSet_list to_date d request =
     bind_result (permitted (AttendanceViewSet_get_permissions ''list'') request)
       (\<lambda>u. AttendanceViewSet_get_queryset to_date d u (query_params request))"

definition AttendanceViewSet_retrieve ::
  "(string \<Rightarrow> date option) \<Rightarrow> db \<Rightarrow> request \<Rightarrow> nat \<Rightarrow> error + attendance" where
  "AttendanceViewSet_retrieve to_date d request pk =
     bind_result (permitted (AttendanceViewSet_get_permissions ''retrieve'') request)
       (\<lambda>u. bind_result (AttendanceViewSet_get_queryset to_date d u (query_params request))
               (get_object att_id pk))"

definition VisitorViewSet_list :: "datetime \<Rightarrow> db \<Rightarrow> request \<Rightarrow> error + visitor list" where
  "VisitorViewSet_list now d request =
     bind_result (permitted (VisitorViewSet_get_permissions ''list'') request)
       (\<lambda>u. VisitorViewSet_get_queryset now d u (query_params request))"

definition VisitorViewSet_retrieve :: "datetime \<Rightarrow> db \<Rightarrow> request \<Rightarrow> nat \<Rightarrow> error + visitor" where
  "VisitorViewSet_retrieve now d request pk =
     bind_result (permitted (VisitorViewSet_get_permissions ''retrieve'') request)
       (\<lambda>u. bind_result (VisitorViewSet_get_queryset now d u (query_params request))
               (get_object visitor_id pk))"

definition ComplaintViewSet_list :: "db \<Rightarrow> request \<Rightarrow> error + complaint list" where
  "ComplaintViewSet_list d request =
     bind_result (permitted (ComplaintViewSet_get_permissions ''list'') request)
       (\<lambda>u. ComplaintViewSet_get_queryset d u (query_params request))"

definition ComplaintViewSet_retrieve :: "db \<Rightarrow> request \<Rightarrow> nat \<Rightarrow> error + complaint" where
  "ComplaintViewSet_retrieve d request pk =
     bind_result (permitted (ComplaintViewSet_get_permissions ''retrieve'') request)
       (\<lambda>u. bind_result (ComplaintViewSet_get_queryset d u (query_params request))
               (get_object complaint_id pk))"

definition MessMenuViewSet_list ::
  "(string \<Rightarrow> date option) \<Rightarrow> db \<Rightarrow> request \<Rightarrow> error + mess_menu list" where
  "MessMenuViewSet_list to_date d request =
     bind_result (permitted (MessMenuViewSet_get_permissions ''list'') request)
       (\<lambda>u. MessMenuViewSet_get_queryset to_date d (query_params request))"

definition MessMenuViewSet_retrieve ::
  "(string \<Rightarrow> date option) \<Rightarrow> db \<Rightarrow> request \<Rightarrow> nat \<Rightarrow> error + mess_menu" where
  "MessMenuViewSet_retrieve to_date d request pk =
     bind_result (permitted (MessMenuViewSet_get_permissions ''retrieve'') request)
       (\<lambda>u. bind_result (MessMenuViewSet_get_queryset to_date d (query_params request))
               (get_object menu_id pk))"

text \<open>\<^verbatim>\<open>ContactMessageViewSet\<close> keeps the class attribute \<^verbatim>\<open>queryset\<close>: every message.\<close>

definition ContactMessageViewSet_list :: "db \<Rightarrow> request \<Rightarrow> error + contact_message list" where
  "ContactMessageViewSet_list d request =
     bind_result (permitted (ContactMessageViewSet_get_permissions ''list'') request)
       (\<lambda>u. Inr (contact_messages d))"

definition ContactMessageViewSet_retrieve :: "db \<Rightarrow> request \<Rightarrow> nat \<Rightarrow> error + contact_message" where
  "ContactMessageViewSet_retrieve d request pk =
     bind_result (permitted (ContactMessageViewSet_get_permissions ''retrieve'') request)
       (\<lambda>u. get_object cm_id pk (contact_messages d))"

subsection \<open>hostel/views.py: StudentProfileViewSet.assign\_room\<close>

text \<open>
  \<open>pk\<close> is the profile in the URL, \<open>rid\<close> is \<^verbatim>\<open>request.data.get('room_id')\<close>
  (a number, \<open>None\<close> when the body has none). The result is the response and the store
  the request leaves behind.
\<close>

definition StudentProfileViewSet_assign_room ::
  "datetime \<Rightarrow> db \<Rightarrow> request \<Rightarrow> nat \<Rightarrow> int option \<Rightarrow> (error + student_profile) \<times> db" where
  "StudentProfileViewSet_assign_room now d request pk rid =
     (case permitted (StudentProfileViewSet_get_permissions ''assign_room'') request of
        Inl e \<Rightarrow> (Inl e, d)
      | Inr u \<Rightarrow>
          (case get_object sp_id pk
                  (StudentProfileViewSet_get_queryset d u (query_params request)) of
             Inl e \<Rightarrow> (Inl e, d)
           | Inr student \<Rightarrow>
               (case (case rid of None \<Rightarrow> None
                      | Some k \<Rightarrow> objects_get room_id k (rooms d)) of
                  None \<Rightarrow> (Inl (Response_404 ''Room not found''), d)
                | Some room \<Rightarrow>
                    if \<not> is_available d room
                    then (Inl (Response_400 ''Room is not available''), d)
                    else
                      (let student = student\<lparr>sp_room := Some (room_id room)\<rparr>
                       in case StudentProfile_save now d student of
                            Inl e \<Rightarrow> (Inl e, d)
                          | Inr d1 \<Rightarrow> (Inr (student\<lparr>sp_updated_at := now\<rparr>), d1)))))"

subsection \<open>hostel/views.py: FeeViewSet.mark\_paid\<close>

text \<open>
  \<open>method\<close> is the \<^verbatim>\<open>payment_method\<close> of the request body, \<open>None\<close> when the body
  has none (the handler then takes the empty text).
\<close>

definition FeeViewSet_mark_paid ::
  "datetime \<Rightarrow> db \<Rightarrow> request \<Rightarrow> nat \<Rightarrow> string option \<Rightarrow> (error + fee) \<times> db" where
  "FeeViewSet_mark_paid now d request pk method =
     (case permitted (FeeViewSet_get_permissions ''mark_paid'') request of
        Inl e \<Rightarrow> (Inl e, d)
      | Inr u \<Rightarrow>
          (case bind_result (FeeViewSet_get_queryset d u (query_params request))
                  (get_object fee_id pk) of
             Inl e \<Rightarrow> (Inl e, d)
           | Inr fee \<Rightarrow>
               (let m = (case method of None \<Rightarrow> [] | Some m \<Rightarrow> m);
                    fee = fee\<lparr>fee_status := PAID,
                              paid_date := Some (date_of now),
                              payment_method := Some m\<rparr>;
                    (fee, d1) = Fee_save now d fee
                in (Inr fee, d1))))"

subsection \<open>hostel/views.py: AttendanceViewSet create\<close>

text \<open>
  The body of a create request, as \<^verbatim>\<open>AttendanceSerializer\<close> reads it:
  \<^verbatim>\<open>date\<close> and \<^verbatim>\<open>status\<close> fall back to the model's defaults.
\<close>

record attendance_data =
  data_student :: nat
  data_date :: "date option"
  data_status :: "attendance_status option"
  data_notes :: "string option"

text \<open>
  \<^verbatim>\<open>AttendanceSerializer\<close> is a \<^verbatim>\<open>ModelSerializer\<close> over all fields of
  \<^verbatim>\<open>Attendance\<close>: it rejects a \<^verbatim>\<open>student\<close> that is no profile, and the
  validator it derives from \<^verbatim>\<open>unique_together\<close> rejects a (student, date) pair
  that a row already has. \<^verbatim>\<open>perform_create\<close> then saves with
  \<^verbatim>\<open>marked_by=self.request.user\<close>, and the response renders the saved instance.
  When the body has no \<^verbatim>\<open>date\<close> the instance carries the model default
  \<^verbatim>\<open>timezone.now\<close>, a datetime: the row is written with its day, and rendering
  the instance fails the date field's \<^verbatim>\<open>assert\<close> that the value is no datetime.
\<close>

definition AttendanceViewSet_create ::
  "datetime \<Rightarrow> db \<Rightarrow> request \<Rightarrow> attendance_data \<Rightarrow> (error + attendance) \<times> db" where
  "AttendanceViewSet_create now d request body =
     (case permitted (AttendanceViewSet_get_permissions ''create'') request of
        Inl e \<Rightarrow> (Inl e, d)
      | Inr u \<Rightarrow>
          (let day = (case data_date body of None \<Rightarrow> date_of now | Some x \<Rightarrow> x);
               st = (case data_status body of None \<Rightarrow> PRESENT | Some x \<Rightarrow> x)
           in if \<not> list_ex (\<lambda>p. sp_id p = data_student body) (students d)
              then (Inl (ValidationError ''student''), d)
              else if list_ex (\<lambda>a. att_student a = data_student body \<and> att_date a = day)
                        (attendances d)
              then (Inl (ValidationError ''non_field_errors''), d)
              else
                (case Attendance_objects_create now d
                        \<lparr>att_id = 0, att_student = data_student body, att_date = day,
                         att_status = st, marked_by = Some (user_id u),
                         att_notes = data_notes body, att_created_at = now\<rparr> of
                   (Inl e, d1) \<Rightarrow> (Inl e, d1)
                 | (Inr row, d1) \<Rightarrow>
                     if data_date body = None then (Inl AssertionError, d1)
                     else (Inr row, d1))))"

subsection \<open>hostel/views.py: dashboard\_stats\<close>

datatype stat = Count nat | Amount int | RoomData "room option"

text \<open>
  \<^verbatim>\<open>aggregate(total=Sum('amount'))['total']\<close> is \<open>None\<close> over no rows, and
  \<^verbatim>\<open>x or 0\<close> is 0 when \<open>x\<close> is \<open>None\<close> or zero.
\<close>

definition aggregate_Sum :: "int list \<Rightarrow> int option" where
  "aggregate_Sum xs = (if xs = [] then None else Some (sum_list xs))"

fun or_0 :: "int option \<Rightarrow> int" where
  "or_0 None = 0"
| "or_0 (Some v) = (if v = 0 then 0 else v)"

text \<open>
  hostel/serializers.py: \<^verbatim>\<open>DashboardStatsSerializer\<close>, its fields in the order
  declared. Both decimal fields have \<^verbatim>\<open>max_digits=10\<close> and
  \<^verbatim>\<open>decimal_places=2\<close>; the model counts amounts in hundredths, so only
  \<^verbatim>\<open>max_digits\<close> is kept.
\<close>

datatype field = IntegerField | DecimalField nat

definition DashboardStatsSerializer :: "(string \<times> field) list" where
  "DashboardStatsSerializer = [
     (''total_rooms'', IntegerField),
     (''occupied_rooms'', IntegerField),
     (''available_rooms'', IntegerField),
     (''total_students'', IntegerField),
     (''active_students'', IntegerField),
     (''pending_fees'', IntegerField),
     (''total_fees_amount'', DecimalField 10),
     (''paid_fees_amount'', DecimalField 10),
     (''todays_visitors'', IntegerField),
     (''pending_complaints'', IntegerField),
     (''todays_attendance'', IntegerField)]"

text \<open>What a field renders: an integer, a decimal (in hundredths) or \<^verbatim>\<open>None\<close>.\<close>

datatype rendered = IntegerValue int | DecimalValue int | NoneValue

text \<open>
  The decimal field quantizes the value to two places in a context whose precision is
  \<^verbatim>\<open>max_digits\<close>: a value in hundredths whose coefficient has more digits raises
  \<^verbatim>\<open>decimal.InvalidOperation\<close>.
\<close>

definition quantize :: "nat \<Rightarrow> int \<Rightarrow> error + rendered" where
  "quantize max_digits a =
     (if \<bar>a\<bar> < 10 ^ max_digits then Inr (DecimalValue a) else Inl InvalidOperation)"

text \<open>
  \<^verbatim>\<open>to_representation\<close> of a field on a value of the dictionary. A value that is
  \<^verbatim>\<open>None\<close> is rendered as \<^verbatim>\<open>None\<close>; the integer field takes
  \<^verbatim>\<open>int(value)\<close>, which rounds a decimal towards zero.
\<close>

fun to_representation :: "field \<Rightarrow> stat \<Rightarrow> error + rendered" where
  "to_representation f (RoomData None) = Inr NoneValue"
| "to_representation IntegerField (Count n) = Inr (IntegerValue (int n))"
| "to_representation IntegerField (Amount a) =
     Inr (IntegerValue (if 0 \<le> a then a div 100 else - ((- a) div 100)))"
| "to_representation IntegerField (RoomData (Some r)) = Inl TypeError"
| "to_representation (DecimalField m) (Count n) = quantize m (100 * int n)"
| "to_representation (DecimalField m) (Amount a) = quantize m a"
| "to_representation (DecimalField m) (RoomData (Some r)) = Inl InvalidOperation"

text \<open>
  \<^verbatim>\<open>Serializer(instance).data\<close> for a dictionary: every declared field reads its
  key, in order; a key the dictionary lacks raises \<^verbatim>\<open>KeyError\<close> (the fields are
  required and have no default). Keys that no field declares are not read.
\<close>

fun serializer_data ::
  "(string \<times> field) list \<Rightarrow> (string \<Rightarrow> stat option) \<Rightarrow> error + (string \<Rightarrow> rendered option)" where
  "serializer_data [] instance = Inr Map.empty"
| "serializer_data ((name, f) # rest) instance =
     (case instance name of
        None \<Rightarrow> Inl (KeyError name)
      | Some v \<Rightarrow>
          (case to_representation f v of
             Inl e \<Rightarrow> Inl e
           | Inr r \<Rightarrow>
               (case serializer_data rest instance of
                  Inl e \<Rightarrow> Inl e
                | Inr ret \<Rightarrow> Inr (ret(name \<mapsto> r)))))"

text \<open>
  The function is behind \<^verbatim>\<open>IsAuthenticated\<close>. It builds the dictionary
  \<^verbatim>\<open>stats\<close> and answers with \<^verbatim>\<open>DashboardStatsSerializer(stats).data\<close>.
\<close>

definition dashboard_stats ::
  "datetime \<Rightarrow> db \<Rightarrow> request \<Rightarrow> error + (string \<Rightarrow> rendered option)" where
  "dashboard_stats now d request =
     (case permitted [IsAuthenticated] request of
        Inl e \<Rightarrow> Inl e
      | Inr u \<Rightarrow>
          (let stats = [
                 ''total_rooms'' \<mapsto> Count (length (rooms d)),
                 ''occupied_rooms'' \<mapsto>
                    Count (length (filter (\<lambda>r. room_status r = OCCUPIED) (rooms d))),
                 ''available_rooms'' \<mapsto>
                    Count (length (filter (\<lambda>r. room_status r = VACANT) (rooms d))),
                 ''total_students'' \<mapsto> Count (length (students d)),
                 ''active_students'' \<mapsto> Count (length (filter is_active (students d)))];
               stats = (if is_admin u \<or> is_warden u then
                  stats ++ [
                    ''pending_fees'' \<mapsto>
                       Count (length (filter (\<lambda>f. fee_status f = UNPAID \<or> fee_status f = OVERDUE)
                                        (fees d))),
                    ''total_fees_amount'' \<mapsto>
                       Amount (or_0 (aggregate_Sum (map amount (fees d)))),
                    ''paid_fees_amount'' \<mapsto>
                       Amount (or_0 (aggregate_Sum
                                 (map amount (filter (\<lambda>f. fee_status f = PAID) (fees d))))),
                    ''todays_visitors'' \<mapsto>
                       Count (length (filter (\<lambda>v. date_of (in_time v) = date_of now)
                                        (visitors d))),
                    ''pending_complaints'' \<mapsto>
                       Count (length (filter (\<lambda>c. complaint_status c = PENDING) (complaints d))),
                    ''todays_attendance'' \<mapsto>
                       Count (length (filter (\<lambda>a. att_date a = date_of now \<and> att_status a = PRESENT)
                                        (attendances d)))]
                  else stats);
               stats = (if is_student u then
                  (case student_profile d u of
                     None \<Rightarrow> stats
                   | Some profile \<Rightarrow> [
                       ''room'' \<mapsto>
                          RoomData (case sp_room profile of
                                      None \<Rightarrow> None
                                    | Some rid \<Rightarrow> objects_get room_id (int rid) (rooms d)),
                       ''pending_fees'' \<mapsto>
                          Count (length (filter (\<lambda>f. fee_student f = sp_id profile
                                              \<and> fee_status f \<in> set [UNPAID, OVERDUE]) (fees d))),
                       ''total_attendance'' \<mapsto>
                          Count (length (filter (\<lambda>a. att_student a = sp_id profile)
                                           (attendances d))),
                       ''present_days'' \<mapsto>
                          Count (length (filter (\<lambda>a. att_student a = sp_id profile
                                              \<and> att_status a = PRESENT) (attendances d))),
                       ''pending_complaints'' \<mapsto>
                          Count (length (filter (\<lambda>c. complaint_student c = sp_id profile
                                              \<and> complaint_status c = PENDING) (complaints d)))])
                  else stats)
           in serializer_data DashboardStatsSerializer stats))"

subsection \<open>Example data\<close>

text \<open>
  A small store for the concrete cases below: room 101 (one bed, vacant), two students
  with a profile each, a newly registered student without a profile, one unpaid fee of
  15000.00 owned by the first profile, and one attendance record.
\<close>

definition t0 :: datetime where
  "t0 = (100, 0)"

definition t1 :: datetime where
  "t1 = (200, 3600)"

definition t2 :: datetime where
  "t2 = (200, 7200)"

definition admin_user :: user where
  "admin_user = \<lparr>user_id = 1, role = ADMIN\<rparr>"

definition warden_user :: user where
  "warden_user = \<lparr>user_id = 2, role = WARDEN\<rparr>"

definition user_A :: user where
  "user_A = \<lparr>user_id = 3, role = STUDENT\<rparr>"

definition user_B :: user where
  "user_B = \<lparr>user_id = 4, role = STUDENT\<rparr>"

definition user_new :: user where
  "user_new = \<lparr>user_id = 5, role = STUDENT\<rparr>"

definition room_101 :: room where
  "room_101 = \<lparr>room_id = 1, room_no = ''101'', room_type = SINGLE, capacity = 1,
     room_floor = 1, room_status = VACANT, description = None,
     room_created_at = t0, room_updated_at = t0\<rparr>"

definition profile_A :: student_profile where
  "profile_A = \<lparr>sp_id = 1, sp_user = 3, sp_room = None, contact = ''0300'',
     emergency_contact = ''0301'', father_name = ''F'', address = ''X'',
     date_of_birth = None, date_of_joining = 90, is_active = True,
     sp_created_at = t0, sp_updated_at = t0\<rparr>"

definition profile_B :: student_profile where
  "profile_B = \<lparr>sp_id = 2, sp_user = 4, sp_room = None, contact = ''0302'',
     emergency_contact = ''0303'', father_name = ''G'', address = ''Y'',
     date_of_birth = None, date_of_joining = 91, is_active = True,
     sp_created_at = t0, sp_updated_at = t0\<rparr>"

definition fee_A :: fee where
  "fee_A = \<lparr>fee_id = 1, fee_student = 1, amount = 1500000, due_date = 150,
     paid_date = None, fee_status = UNPAID, payment_method = None, fee_notes = None,
     fee_created_at = t0, fee_updated_at = t0\<rparr>"

definition attendance_A :: attendance where
  "attendance_A = \<lparr>att_id = 1, att_student = 1, att_date = 200, att_status = PRESENT,
     marked_by = Some 2, att_notes = None, att_created_at = t0\<rparr>"

definition contact_1 :: contact_message where
  "contact_1 = \<lparr>cm_id = 1, cm_name = ''N'', cm_email = ''n@example.org'',
     cm_role = ''parent'', cm_message = ''hello'', is_resolved = False, cm_created_at = t0\<rparr>"

definition example_db :: db where
  "example_db = \<lparr>rooms = [room_101], students = [profile_A, profile_B], fees = [fee_A],
     attendances = [attendance_A], visitors = [], complaints = [], mess_menus = [],
     contact_messages = [contact_1]\<rparr>"

text \<open>The same store once the first student lives in room 101.\<close>

definition room_101_taken :: room where
  "room_101_taken = room_101\<lparr>room_status := OCCUPIED, room_updated_at := t1\<rparr>"

definition profile_A_in_101 :: student_profile where
  "profile_A_in_101 = profile_A\<lparr>sp_room := Some 1, sp_updated_at := t1\<rparr>"

definition example_db_taken :: db where
  "example_db_taken = example_db\<lparr>rooms := [room_101_taken],
     students := [profile_A_in_101, profile_B]\<rparr>"

text \<open>The example fee once marked paid at \<open>now\<close> with method \<open>m\<close>, and the store then.\<close>

definition fee_A_paid :: "datetime \<Rightarrow> string \<Rightarrow> fee" where
  "fee_A_paid now m = fee_A\<lparr>fee_status := PAID, paid_date := Some (date_of now),
     payment_method := Some m, fee_updated_at := now\<rparr>"

definition example_db_paid :: "datetime \<Rightarrow> string \<Rightarrow> db" where
  "example_db_paid now m = example_db\<lparr>fees := [fee_A_paid now m]\<rparr>"

text \<open>
  A store with two paid fees of 60000000.00 each; each amount has ten digits, as
  \<^verbatim>\<open>Fee.amount\<close> allows, and their sum has eleven.
\<close>

definition fee_big_1 :: fee where
  "fee_big_1 = \<lparr>fee_id = 1, fee_student = 1, amount = 6000000000, due_date = 150,
     paid_date = Some 120, fee_status = PAID, payment_method = Some ''Bank'',
     fee_notes = None, fee_created_at = t0, fee_updated_at = t0\<rparr>"

definition fee_big_2 :: fee where
  "fee_big_2 = \<lparr>fee_id = 2, fee_student = 2, amount = 6000000000, due_date = 150,
     paid_date = None, fee_status = UNPAID, payment_method = None,
     fee_notes = None, fee_created_at = t0, fee_updated_at = t0\<rparr>"

definition example_db_big :: db where
  "example_db_big = example_db\<lparr>fees := [fee_big_1, fee_big_2]\<rparr>"

text \<open>
  Two bodies of attendance create requests, for the pair the example record has and for a
  new pair, and the record the second one creates at \<open>t1\<close> for the warden.
\<close>

definition body_A_again :: attendance_data where
  "body_A_again = \<lparr>data_student = 1, data_date = Some 200, data_status = Some ABSENT,
     data_notes = None\<rparr>"

definition body_B :: attendance_data where
  "body_B = \<lparr>data_student = 2, data_date = Some 200, data_status = None, data_notes = None\<rparr>"

definition attendance_B :: attendance where
  "attendance_B = \<lparr>att_id = 2, att_student = 2, att_date = 200, att_status = PRESENT,
     marked_by = Some 2, att_notes = None, att_created_at = t1\<rparr>"

text \<open>A request of a logged-in user with the given query parameters.\<close>

definition request_of :: "user \<Rightarrow> (string \<Rightarrow> string option) \<Rightarrow> request" where
  "request_of u params = \<lparr>req_user = Some u, query_params = params\<rparr>"

section \<open>Auxiliary facts\<close>

lemmas example_defs = t0_def t1_def t2_def admin_user_def warden_user_def user_A_def user_B_def
  user_new_def room_101_def profile_A_def profile_B_def fee_A_def attendance_A_def contact_1_def
  example_db_def request_of_def room_101_taken_def profile_A_in_101_def example_db_taken_def
  fee_A_paid_def example_db_paid_def body_A_again_def body_B_def attendance_B_def
  fee_big_1_def fee_big_2_def example_db_big_def

lemmas query_defs = permitted_def check_permissions_def bind_result_def get_object_def
  filter_if_def filter_student_id_if_def filter_student_id_def own_records_def
  student_profile_def date_of_def

lemmas role_defs = is_admin_def is_warden_def is_student_def

lemmas permission_defs = RoomViewSet_get_permissions_def StudentProfileViewSet_get_permissions_def
  FeeViewSet_get_permissions_def AttendanceViewSet_get_permissions_def
  VisitorViewSet_get_permissions_def ComplaintViewSet_get_permissions_def
  MessMenuViewSet_get_permissions_def ContactMessageViewSet_get_permissions_def

lemma objects_get_self:
  "objects_get pk k table = Some x \<Longrightarrow>
     int (pk x) = k \<and> objects_get pk (int (pk x)) table = Some x"
  by (auto simp: objects_get_def find_Some_iff)

lemma permitted_authenticated:
  "permitted [IsAuthenticated] request =
     (case req_user request of None \<Rightarrow> Inl NotAuthenticated | Some u \<Rightarrow> Inr u)"
  by (auto simp: permitted_def check_permissions_def split: option.splits)

lemma StudentProfile_save_existing_room:
  "objects_get room_id (int rid) (rooms d) = Some room \<Longrightarrow> sp_room self = Some rid \<Longrightarrow>
   \<exists>d1. StudentProfile_save now d self = Inr d1"
  by (auto simp: StudentProfile_save_def StudentProfile_super_save_def Let_def
           split: option.splits)

lemma find_save_row:
  "find (\<lambda>x. pk x = pk r) (save_row pk r table) = Some r"
  by (induction table) (auto simp: save_row_def list_ex_iff split: if_splits)

lemma in_save_row: "r \<in> set (save_row pk r table)"
  by (auto simp: save_row_def list_ex_iff image_iff)

lemma find_map_replace:
  "find (\<lambda>x. int (pk x) = k) table = Some x0 \<Longrightarrow> pk r = pk x0 \<Longrightarrow>
   find (\<lambda>x. int (pk x) = k) (map (\<lambda>x. if pk x = pk r then r else x) table) = Some r"
  by (induction table) (auto split: if_splits)

lemma distinct_pk_eq:
  "distinct (map pk xs) \<Longrightarrow> x \<in> set xs \<Longrightarrow> y \<in> set xs \<Longrightarrow> pk x = pk y \<Longrightarrow> x = y"
  by (auto simp: distinct_map inj_on_def)

lemma list_all2_map_same: "list_all2 P xs (map f xs) = (\<forall>x\<in>set xs. P x (f x))"
  by (simp add: list_all2_map2 list_all2_same)

lemma current_occupancy_Room_save [simp]:
  "current_occupancy (Room_save now d r) room = current_occupancy d room"
  by (simp add: Room_save_def current_occupancy_def Let_def)

lemma current_occupancy_room_id:
  "room_id r = room_id room \<Longrightarrow> current_occupancy d r = current_occupancy d room"
  by (simp add: current_occupancy_def)

lemma students_Room_save [simp]: "students (Room_save now d r) = students d"
  by (simp add: Room_save_def Let_def)

lemma occupancy_positive:
  "s \<in> set (students d) \<Longrightarrow> sp_room s = Some (room_id room) \<Longrightarrow> is_active s \<Longrightarrow>
   0 < current_occupancy d room"
  by (auto simp: current_occupancy_def filter_empty_conv)

lemma objects_get_Room_save:
  "objects_get room_id k (rooms d) = Some room \<Longrightarrow> room_id r = room_id room \<Longrightarrow>
   objects_get room_id k (rooms (Room_save now d r)) = Some (r\<lparr>room_updated_at := now\<rparr>)"
proof -
  assume a: "objects_get room_id k (rooms d) = Some room" and b: "room_id r = room_id room"
  have "room \<in> set (rooms d)"
    using a by (auto simp: objects_get_def find_Some_iff)
  then have ex: "list_ex (\<lambda>x. room_id x = room_id r) (rooms d)"
    using b by (auto simp: list_ex_iff)
  show ?thesis
    using a b ex
          find_map_replace[of room_id k "rooms d" room "r\<lparr>room_updated_at := now\<rparr>"]
    by (simp add: Room_save_def Let_def objects_get_def save_row_def)
qed

lemma rooms_Room_save_existing:
  assumes "distinct (map room_id (rooms d))" "room \<in> set (rooms d)" "room_id r = room_id room"
  shows "rooms (Room_save now d r)
           = map (\<lambda>x. if x = room then r\<lparr>room_updated_at := now\<rparr> else x) (rooms d)"
proof -
  have ex: "list_ex (\<lambda>x. room_id x = room_id r) (rooms d)"
    using assms(2,3) by (auto simp: list_ex_iff)
  have "\<forall>x\<in>set (rooms d). (room_id x = room_id r) = (x = room)"
    using distinct_pk_eq[OF assms(1) _ assms(2)] assms(3) by auto
  then show ?thesis
    using ex by (simp add: Room_save_def Let_def save_row_def cong: map_cong)
qed

text \<open>The first student of the example store moves into room 101 at \<open>t1\<close>.\<close>

lemma example_save:
  "StudentProfile_save t1 example_db (profile_A\<lparr>sp_room := Some 1\<rparr>) = Inr example_db_taken"
  by (simp add: example_defs StudentProfile_save_def StudentProfile_super_save_def
                save_row_def objects_get_def current_occupancy_def Room_save_def Let_def)

lemma get_object_Inr: "get_object pk k queryset = Inr x \<Longrightarrow> x \<in> set queryset \<and> pk x = k"
  by (auto simp: get_object_def find_Some_iff split: option.splits)

lemma filter_student_id_if_subset:
  "filter_student_id_if param fk queryset = Inr qs \<Longrightarrow> set qs \<subseteq> set queryset"
  by (auto simp: filter_student_id_if_def filter_student_id_def split: option.splits if_splits)

lemma filter_if_subset: "set (filter_if param P queryset) \<subseteq> set queryset"
  by (auto simp: filter_if_def split: option.splits)

lemma own_records_subset: "set (own_records d u fk queryset) \<subseteq> set queryset"
  by (auto simp: own_records_def split: option.splits)

lemma FeeViewSet_get_queryset_subset:
  "FeeViewSet_get_queryset d u params = Inr qs \<Longrightarrow> set qs \<subseteq> set (fees d)"
proof -
  assume "FeeViewSet_get_queryset d u params = Inr qs"
  then have "set qs \<subseteq> set (filter_if (params ''status'')
                       (\<lambda>v f. fee_status_str (fee_status f) = v)
                       (own_records d u fee_student (fees d)))"
    unfolding FeeViewSet_get_queryset_def Let_def by (rule filter_student_id_if_subset)
  also have "\<dots> \<subseteq> set (own_records d u fee_student (fees d))"
    by (rule filter_if_subset)
  also have "\<dots> \<subseteq> set (fees d)"
    by (rule own_records_subset)
  finally show ?thesis .
qed

lemma fee_lookup:
  "bind_result (FeeViewSet_get_queryset d u params) (get_object fee_id pk) = Inr fee \<Longrightarrow>
   fee \<in> set (fees d) \<and> fee_id fee = pk"
proof -
  assume a: "bind_result (FeeViewSet_get_queryset d u params) (get_object fee_id pk) = Inr fee"
  then obtain qs where q: "FeeViewSet_get_queryset d u params = Inr qs"
    and g: "get_object fee_id pk qs = Inr fee"
    by (auto simp: bind_result_def split: sum.splits)
  show ?thesis
    using FeeViewSet_get_queryset_subset[OF q] get_object_Inr[OF g] by auto
qed

lemma save_row_distinct:
  assumes "distinct (map pk table)" "x \<in> set table" "pk r = pk x"
  shows "save_row pk r table = map (\<lambda>y. if y = x then r else y) table"
proof -
  have ex: "list_ex (\<lambda>y. pk y = pk r) table"
    using assms(2,3) by (auto simp: list_ex_iff)
  have "\<forall>y\<in>set table. (pk y = pk r) = (y = x)"
    using distinct_pk_eq[OF assms(1) _ assms(2)] assms(3) by auto
  then show ?thesis
    using ex by (simp add: save_row_def cong: map_cong)
qed

lemma Fee_save_paid:
  assumes "distinct (map fee_id (fees d))" "x \<in> set (fees d)" "fee_id self = fee_id x"
      and "fee_status self = PAID"
  shows "Fee_save now d self
           = (self\<lparr>fee_updated_at := now\<rparr>,
              d\<lparr>fees := map (\<lambda>y. if y = x then self\<lparr>fee_updated_at := now\<rparr> else y) (fees d)\<rparr>)"
proof -
  have ex: "list_ex (\<lambda>y. fee_id y = fee_id self) (fees d)"
    using assms(2,3) by (auto simp: list_ex_iff)
  have sr: "save_row fee_id (self\<lparr>fee_updated_at := now\<rparr>) (fees d)
              = map (\<lambda>y. if y = x then self\<lparr>fee_updated_at := now\<rparr> else y) (fees d)"
    using save_row_distinct[OF assms(1,2), of "self\<lparr>fee_updated_at := now\<rparr>"] assms(3)
    by simp
  show ?thesis
    unfolding Fee_save_def Let_def using ex assms(4) sr by simp
qed

lemma mark_paid_once:
  assumes "distinct (map fee_id (fees d))"
      and "req_user request = Some u"
      and "bind_result (FeeViewSet_get_queryset d u (query_params request))
             (get_object fee_id pk) = Inr fee"
  shows "FeeViewSet_mark_paid now d request pk (Some m)
           = (Inr (fee\<lparr>fee_status := PAID, paid_date := Some (date_of now),
                       payment_method := Some m, fee_updated_at := now\<rparr>),
              d\<lparr>fees := map (\<lambda>x. if x = fee
                                 then fee\<lparr>fee_status := PAID, paid_date := Some (date_of now),
                                          payment_method := Some m, fee_updated_at := now\<rparr>
                                 else x) (fees d)\<rparr>)"
proof -
  have p: "permitted (FeeViewSet_get_permissions ''mark_paid'') request = Inr u"
    using assms(2) by (simp add: FeeViewSet_get_permissions_def permitted_authenticated)
  have mem: "fee \<in> set (fees d)" and pk: "fee_id fee = pk"
    using fee_lookup[OF assms(3)] by auto
  have fs: "Fee_save now d (fee\<lparr>fee_status := PAID, paid_date := Some (date_of now),
                       payment_method := Some m\<rparr>)
     = (fee\<lparr>fee_status := PAID, paid_date := Some (date_of now),
                       payment_method := Some m, fee_updated_at := now\<rparr>,
              d\<lparr>fees := map (\<lambda>x. if x = fee
                                 then fee\<lparr>fee_status := PAID, paid_date := Some (date_of now),
                                          payment_method := Some m, fee_updated_at := now\<rparr>
                                 else x) (fees d)\<rparr>)"
    using Fee_save_paid[OF assms(1) mem, of "fee\<lparr>fee_status := PAID, paid_date := Some (date_of now),
                       payment_method := Some m\<rparr>" now]
    by simp
  show ?thesis
    unfolding FeeViewSet_mark_paid_def Let_def
    using p assms(3) fs by simp
qed

lemma find_map_replace_id:
  fixes pk :: "'a \<Rightarrow> nat"
  assumes "distinct (map pk table)" "x \<in> set table" "pk r = pk x"
  shows "find (\<lambda>y. pk y = pk x) (map (\<lambda>y. if y = x then r else y) table) = Some r"
  using find_save_row[of pk r table] save_row_distinct[OF assms] assms(3) by simp

lemma map_pk_replace:
  "pk r = pk x \<Longrightarrow> map pk (map (\<lambda>y. if y = x then r else y) table) = map pk table"
  by (induction table) auto

lemma Fee_save_stored:
  "Fee_save now d self = (row, d') \<Longrightarrow>
     find (\<lambda>x. fee_id x = fee_id self) (fees d') = Some row \<and> fee_id row = fee_id self"
  using find_save_row[of fee_id row "fees d"]
  by (auto simp: Fee_save_def Let_def split: if_splits)

lemma map_replace_twice:
  assumes "distinct (map pk table)" "x \<in> set table" "pk r = pk x"
  shows "map (\<lambda>y. if y = r then r' else y) (map (\<lambda>y. if y = x then r else y) table)
           = map (\<lambda>y. if y = x then r' else y) table"
proof -
  have "\<forall>y\<in>set table. y \<noteq> x \<longrightarrow> y \<noteq> r"
    using distinct_pk_eq[OF assms(1) _ assms(2)] assms(3) by auto
  then show ?thesis by (simp add: o_def cong: map_cong)
qed

lemma example_fee_lookup:
  "bind_result (FeeViewSet_get_queryset example_db admin_user
                  (query_params (request_of admin_user Map.empty)))
     (get_object fee_id 1) = Inr fee_A"
  by (simp add: example_defs query_defs role_defs FeeViewSet_get_queryset_def)

lemma example_mark_paid:
  "FeeViewSet_mark_paid now example_db (request_of admin_user Map.empty) 1 (Some m)
     = (Inr (fee_A_paid now m), example_db_paid now m)"
  by (simp add: example_defs query_defs role_defs permission_defs FeeViewSet_get_queryset_def
                FeeViewSet_mark_paid_def Fee_save_def save_row_def Let_def)

lemma example_mark_paid_again:
  "FeeViewSet_mark_paid now' (example_db_paid now m) (request_of admin_user Map.empty) 1 (Some m')
     = (Inr (fee_A_paid now' m'), example_db_paid now' m')"
  by (simp add: example_defs query_defs role_defs permission_defs FeeViewSet_get_queryset_def
                FeeViewSet_mark_paid_def Fee_save_def save_row_def Let_def)

lemma warden_roles: "is_warden u \<Longrightarrow> \<not> is_admin u \<and> \<not> is_student u"
  by (simp add: role_defs)

lemma room_status_str_range: "room_status_str x \<in> set [''vacant'', ''occupied'', ''maintenance'']"
  by (cases x) simp_all

lemma room_type_str_range: "room_type_str x \<in> set [''single'', ''double'', ''triple'']"
  by (cases x) simp_all

lemma fee_status_str_range: "fee_status_str x \<in> set [''unpaid'', ''paid'', ''overdue'']"
  by (cases x) simp_all

lemma attendance_status_str_range: "attendance_status_str x \<in> set [''present'', ''absent'', ''leave'']"
  by (cases x) simp_all

lemma complaint_status_str_range:
  "complaint_status_str x \<in> set [''pending'', ''in_progress'', ''resolved'']"
  by (cases x) simp_all

lemma filter_if_Nil: "filter_if param P [] = []"
  by (simp add: filter_if_def split: option.splits)

lemma filter_if_outside:
  assumes "param = Some v" "v \<noteq> []" "\<And>x. P v x = False"
  shows "filter_if param P queryset = []"
  using assms by (simp add: filter_if_def)

lemma fold_max_ge: "(a::nat) \<le> fold max xs a \<and> (\<forall>x\<in>set xs. x \<le> fold max xs a)"
proof (induction xs arbitrary: a)
  case Nil
  then show ?case by simp
next
  case (Cons y ys)
  have "max y a \<le> fold max ys (max y a)" and "\<forall>x\<in>set ys. x \<le> fold max ys (max y a)"
    using Cons.IH[of "max y a"] by auto
  then show ?case by auto
qed

lemma next_id_fresh: "x \<in> set table \<Longrightarrow> pk x < next_id pk table"
  using fold_max_ge[of 0 "map pk table"] by (auto simp: next_id_def less_Suc_eq_le)

lemma unique_together_taken_iff:
  "unique_together_taken self table
     = (\<exists>x\<in>set table. att_id x \<noteq> att_id self \<and> att_student x = att_student self
                          \<and> att_date x = att_date self)"
  by (simp add: unique_together_taken_def list_ex_iff)

lemma distinct_map_replace:
  assumes "distinct (map k table)"
      and "\<forall>y\<in>set table. y \<noteq> x \<longrightarrow> k y \<noteq> k r"
  shows "distinct (map k (map (\<lambda>y. if y = x then r else y) table))"
proof -
  let ?f = "\<lambda>y. k (if y = x then r else y)"
  have "distinct (map ?f table)"
    using assms
  proof (induction table)
    case Nil
    then show ?case by simp
  next
    case (Cons a as)
    have ih: "distinct (map ?f as)"
      using Cons by simp
    have notin: "?f a \<notin> ?f ` set as"
    proof
      assume "?f a \<in> ?f ` set as"
      then obtain b where b: "b \<in> set as" "?f a = ?f b"
        by auto
      have ab: "k a \<noteq> k b" using Cons.prems(1) b(1) by auto
      then have "a \<noteq> b" by auto
      show False
      proof (cases "a = x")
        case True
        then have "b \<noteq> x" using \<open>a \<noteq> b\<close> by simp
        then show False using b True Cons.prems(2) by auto
      next
        case False
        show False
        proof (cases "b = x")
          case True
          then show False using b False Cons.prems(2) by auto
        next
          case bf: False
          then show False using b False ab by simp
        qed
      qed
    qed
    show ?case using ih notin by simp
  qed
  then show ?thesis by (simp add: o_def)
qed

lemma Attendance_save_keeps_unique:
  assumes ids: "distinct (map att_id (attendances d))"
      and uniq: "distinct (map (\<lambda>a. (att_student a, att_date a)) (attendances d))"
      and save: "Attendance_save now d self = Inr d'"
  shows "distinct (map att_id (attendances d'))
       \<and> distinct (map (\<lambda>a. (att_student a, att_date a)) (attendances d'))"
proof -
  have free: "\<forall>x\<in>set (attendances d). att_id x \<noteq> att_id self \<longrightarrow>
                (att_student x, att_date x) \<noteq> (att_student self, att_date self)"
    using save by (auto simp: Attendance_save_def unique_together_taken_iff split: if_splits)
  show ?thesis
  proof (cases "list_ex (\<lambda>x. att_id x = att_id self) (attendances d)")
    case True
    then obtain x where x: "x \<in> set (attendances d)" "att_id x = att_id self"
      by (auto simp: list_ex_iff)
    have d': "attendances d' = map (\<lambda>y. if y = x then self else y) (attendances d)"
      using save True save_row_distinct[OF ids x(1), of self] x(2)
      by (auto simp: Attendance_save_def Let_def split: if_splits)
    have other: "\<forall>y\<in>set (attendances d). y \<noteq> x \<longrightarrow> att_id y \<noteq> att_id self"
      using distinct_pk_eq[OF ids _ x(1)] x(2) by auto
    have a: "distinct (map att_id (attendances d'))"
      unfolding d' using ids other by (intro distinct_map_replace) auto
    have b: "distinct (map (\<lambda>a. (att_student a, att_date a)) (attendances d'))"
      unfolding d' using uniq other free by (intro distinct_map_replace) auto
    show ?thesis using a b by simp
  next
    case False
    then have d': "attendances d' = attendances d @ [self\<lparr>att_created_at := now\<rparr>]"
      using save by (auto simp: Attendance_save_def Let_def save_row_def split: if_splits)
    have nid: "\<forall>x\<in>set (attendances d). att_id x \<noteq> att_id self"
      using False by (auto simp: list_ex_iff)
    show ?thesis
      unfolding d' using ids uniq nid free by auto
  qed
qed


lemma Attendance_objects_create_taken:
  assumes "list_ex (\<lambda>x. att_student x = att_student vals \<and> att_date x = att_date vals)
             (attendances d)"
  shows "Attendance_objects_create now d vals = (Inl IntegrityError, d)"
proof -
  obtain x where x: "x \<in> set (attendances d)" "att_student x = att_student vals"
      "att_date x = att_date vals"
    using assms by (auto simp: list_ex_iff)
  have "att_id x \<noteq> next_id att_id (attendances d)"
    using next_id_fresh[OF x(1), of att_id] by simp
  then have "unique_together_taken
               (vals\<lparr>att_id := next_id att_id (attendances d), att_created_at := now\<rparr>)
               (attendances d)"
    using x by (auto simp: unique_together_taken_iff)
  then show ?thesis
    by (simp add: Attendance_objects_create_def Attendance_save_def Let_def)
qed

lemma Attendance_objects_create_keeps_unique:
  assumes "distinct (map att_id (attendances d))"
      and "distinct (map (\<lambda>a. (att_student a, att_date a)) (attendances d))"
      and "Attendance_objects_create now d vals = (Inr row, d')"
  shows "distinct (map att_id (attendances d'))
       \<and> distinct (map (\<lambda>a. (att_student a, att_date a)) (attendances d'))"
proof -
  have "Attendance_save now d
          (vals\<lparr>att_id := next_id att_id (attendances d), att_created_at := now\<rparr>) = Inr d'"
    using assms(3) by (auto simp: Attendance_objects_create_def Let_def split: sum.splits)
  then show ?thesis
    using Attendance_save_keeps_unique[OF assms(1,2)] by blast
qed

lemma filter_student_id_if_result:
  "(\<exists>qs. filter_student_id_if param fk q = Inr qs)
   \<or> ((\<exists>s. param = Some s \<and> s \<noteq> [])
       \<and> (filter_student_id_if param fk q = Inl ValueError
            \<or> filter_student_id_if param fk q = Inl OverflowError))"
  by (auto simp: filter_student_id_if_def filter_student_id_def split: option.splits)

lemma filter_student_id_if_Nil:
  "filter_student_id_if param fk [] = Inr []
   \<or> ((\<exists>s. param = Some s \<and> s \<noteq> [])
       \<and> (filter_student_id_if param fk [] = Inl ValueError
            \<or> filter_student_id_if param fk [] = Inl OverflowError))"
  by (auto simp: filter_student_id_if_def filter_student_id_def split: option.splits)

lemma filter_date_if_result:
  "(\<exists>qs. filter_date_if to_date param col q = Inr qs)
   \<or> ((\<exists>s. param = Some s \<and> s \<noteq> [])
       \<and> filter_date_if to_date param col q = Inl (ValidationError ''date''))"
  by (auto simp: filter_date_if_def split: option.splits)

lemma StudentProfileViewSet_get_queryset_subset:
  "set (StudentProfileViewSet_get_queryset d u params) \<subseteq> set (students d)"
  unfolding StudentProfileViewSet_get_queryset_def Let_def
  by (rule subset_trans[OF filter_if_subset]) (auto split: option.splits)

lemma StudentProfile_save_existing:
  assumes "objects_get room_id (int rid) (rooms d) = Some room"
      and "sp_room self = Some rid"
      and "list_ex (\<lambda>x. sp_id x = sp_id self) (students d)"
  shows "StudentProfile_save now d self
           = Inr (if is_active self \<and> room_status room = VACANT
                  then Room_save now
                         (d\<lparr>students := save_row sp_id (self\<lparr>sp_updated_at := now\<rparr>) (students d)\<rparr>)
                         (room\<lparr>room_status := OCCUPIED\<rparr>)
                  else d\<lparr>students := save_row sp_id (self\<lparr>sp_updated_at := now\<rparr>) (students d)\<rparr>)"
proof -
  let ?row = "self\<lparr>sp_updated_at := now\<rparr>"
  let ?d1 = "d\<lparr>students := save_row sp_id ?row (students d)\<rparr>"
  have rid: "room_id room = rid" using objects_get_self[OF assms(1)] by simp
  have ss: "StudentProfile_super_save now d self = Inr ?d1"
    using assms by (simp add: StudentProfile_super_save_def Let_def)
  have r1: "objects_get room_id (int rid) (rooms ?d1) = Some room"
    using assms(1) by simp
  have occ: "0 < current_occupancy ?d1 room" if "is_active self"
    using occupancy_positive[of ?row ?d1 room] in_save_row[of ?row sp_id "students d"]
          assms(2) rid that
    by simp
  show ?thesis
    using ss r1 occ assms(2) by (simp add: StudentProfile_save_def)
qed

lemma Attendance_objects_create_store:
  assumes "distinct (map att_id (attendances d))"
      and "distinct (map (\<lambda>a. (att_student a, att_date a)) (attendances d))"
  shows "distinct (map (\<lambda>a. (att_student a, att_date a))
                    (attendances (snd (Attendance_objects_create now d vals))))"
proof (cases "Attendance_objects_create now d vals")
  case (Pair r d1)
  show ?thesis
  proof (cases r)
    case (Inl e)
    then have "d1 = d"
      using Pair by (auto simp: Attendance_objects_create_def Let_def split: sum.splits)
    then show ?thesis using Pair assms(2) by simp
  next
    case (Inr row)
    then show ?thesis
      using Pair Attendance_objects_create_keeps_unique[OF assms, of now vals row d1] by simp
  qed
qed

lemma AttendanceViewSet_create_store:
  "snd (AttendanceViewSet_create now d request body) = d
   \<or> (\<exists>vals. snd (AttendanceViewSet_create now d request body)
                = snd (Attendance_objects_create now d vals))"
proof (cases "permitted (AttendanceViewSet_get_permissions ''create'') request")
  case (Inl e)
  then show ?thesis by (simp add: AttendanceViewSet_create_def)
next
  case (Inr u)
  let ?vals = "\<lparr>att_id = 0, att_student = data_student body,
                 att_date = (case data_date body of None \<Rightarrow> date_of now | Some x \<Rightarrow> x),
                 att_status = (case data_status body of None \<Rightarrow> PRESENT | Some x \<Rightarrow> x),
                 marked_by = Some (user_id u),
                 att_notes = data_notes body, att_created_at = now\<rparr>"
  have "snd (AttendanceViewSet_create now d request body) = d
        \<or> snd (AttendanceViewSet_create now d request body)
            = snd (Attendance_objects_create now d ?vals)"
    using Inr
    by (cases "Attendance_objects_create now d ?vals")
       (auto simp: AttendanceViewSet_create_def Let_def split: sum.splits)
  then show ?thesis by blast
qed

section \<open>Room assignment\<close>

text \<open>
  C1. For a logged-in requester whose query set holds the student profile, and a room
  that exists, \<^verbatim>\<open>assign_room\<close> succeeds exactly when the room's
  \<^verbatim>\<open>is_available\<close> is true; \<^verbatim>\<open>is_available\<close> holds iff the status is vacant
  and the number of active profiles referencing the room is below its capacity; and when
  it is false the request ends in the response 400 "Room is not available" with the
  store, hence the student's room reference, as it was. When it is true the request
  returns the profile with the requested room, and leaves the store that
  \<^verbatim>\<open>StudentProfile.save\<close> of that profile leaves: the profile is stored with the
  requested room, and the room is occupied if the student is active and untouched if not.
\<close>

theorem assign_room_iff_available:
  assumes "req_user request = Some u"
      and "get_object sp_id pk
             (StudentProfileViewSet_get_queryset d u (query_params request)) = Inr student"
      and "objects_get room_id k (rooms d) = Some room"
  shows "((\<exists>s. fst (StudentProfileViewSet_assign_room now d request pk (Some k)) = Inr s)
            \<longleftrightarrow> is_available d room)
       \<and> (is_available d room \<longleftrightarrow>
            room_status room = VACANT
            \<and> int (length (filter (\<lambda>s. sp_room s = Some (room_id room) \<and> is_active s)
                              (students d)))
                < capacity room)
       \<and> (\<not> is_available d room \<longrightarrow>
            StudentProfileViewSet_assign_room now d request pk (Some k)
              = (Inl (Response_400 ''Room is not available''), d))
       \<and> (is_available d room \<longrightarrow>
            (\<exists>d'. StudentProfileViewSet_assign_room now d request pk (Some k)
                     = (Inr (student\<lparr>sp_room := Some (room_id room), sp_updated_at := now\<rparr>), d')
                 \<and> StudentProfile_save now d (student\<lparr>sp_room := Some (room_id room)\<rparr>) = Inr d'
                 \<and> find (\<lambda>x. sp_id x = pk) (students d')
                     = Some (student\<lparr>sp_room := Some (room_id room), sp_updated_at := now\<rparr>)
                 \<and> students d'
                     = save_row sp_id
                         (student\<lparr>sp_room := Some (room_id room), sp_updated_at := now\<rparr>)
                         (students d)
                 \<and> (is_active student \<longrightarrow>
                       objects_get room_id k (rooms d')
                         = Some (room\<lparr>room_status := OCCUPIED, room_updated_at := now\<rparr>))
                 \<and> (\<not> is_active student \<longrightarrow> rooms d' = rooms d)))"
proof -
  let ?self = "student\<lparr>sp_room := Some (room_id room)\<rparr>"
  let ?row = "student\<lparr>sp_room := Some (room_id room), sp_updated_at := now\<rparr>"
  let ?d1 = "d\<lparr>students := save_row sp_id ?row (students d)\<rparr>"
  have p: "permitted (StudentProfileViewSet_get_permissions ''assign_room'') request = Inr u"
    using assms(1)
    by (simp add: StudentProfileViewSet_get_permissions_def permitted_authenticated)
  have r: "objects_get room_id (int (room_id room)) (rooms d) = Some room"
    and k: "int (room_id room) = k"
    using objects_get_self[OF assms(3)] by auto
  have mem: "student \<in> set (students d)" and pk: "sp_id student = pk"
    using get_object_Inr[OF assms(2)] StudentProfileViewSet_get_queryset_subset by auto
  have ex: "list_ex (\<lambda>x. sp_id x = sp_id ?self) (students d)"
    using mem by (auto simp: list_ex_iff)
  define d' where "d' = (if is_active student \<and> room_status room = VACANT
                  then Room_save now ?d1 (room\<lparr>room_status := OCCUPIED\<rparr>) else ?d1)"
  have s: "StudentProfile_save now d ?self = Inr d'"
    using StudentProfile_save_existing[OF r _ ex, of now] by (simp add: d'_def)
  have view: "StudentProfileViewSet_assign_room now d request pk (Some k)
                = (if is_available d room then (Inr ?row, d')
                   else (Inl (Response_400 ''Room is not available''), d))"
    using p assms(2,3) s by (simp add: StudentProfileViewSet_assign_room_def Let_def)
  have st: "students d' = save_row sp_id ?row (students d)"
    by (simp add: d'_def)
  have f: "find (\<lambda>x. sp_id x = pk) (students d') = Some ?row"
    using find_save_row[of sp_id ?row "students d"] pk by (simp add: st)
  have occ: "objects_get room_id k (rooms d')
               = Some (room\<lparr>room_status := OCCUPIED, room_updated_at := now\<rparr>)"
    if "is_available d room" "is_active student"
  proof -
    have "objects_get room_id k (rooms ?d1) = Some room" using assms(3) by simp
    from objects_get_Room_save[OF this, of "room\<lparr>room_status := OCCUPIED\<rparr>" now]
    show ?thesis using that by (simp add: d'_def is_available_def)
  qed
  have un: "rooms d' = rooms d" if "\<not> is_active student"
    using that by (simp add: d'_def)
  show ?thesis
    using view s st f occ un
    by (auto simp: is_available_def current_occupancy_def)
qed

theorem assign_room_iff_available_witness:
  "is_available example_db room_101
   \<and> StudentProfileViewSet_assign_room t1 example_db (request_of admin_user Map.empty) 1 (Some 1)
       = (Inr profile_A_in_101, example_db_taken)
   \<and> find (\<lambda>x. sp_id x = 1) (students example_db_taken) = Some profile_A_in_101
   \<and> sp_room profile_A_in_101 = Some 1
   \<and> \<not> is_available example_db_taken room_101_taken
   \<and> StudentProfileViewSet_assign_room t2 example_db_taken
        (request_of admin_user Map.empty) 2 (Some 1)
       = (Inl (Response_400 ''Room is not available''), example_db_taken)"
proof -
  have u: "req_user (request_of admin_user Map.empty) = Some admin_user"
    by (simp add: request_of_def)
  have a: "get_object sp_id 1
             (StudentProfileViewSet_get_queryset example_db admin_user
                (query_params (request_of admin_user Map.empty))) = Inr profile_A"
    by (simp add: example_defs get_object_def StudentProfileViewSet_get_queryset_def
                  role_defs filter_if_def)
  have b: "get_object sp_id 2
             (StudentProfileViewSet_get_queryset example_db_taken admin_user
                (query_params (request_of admin_user Map.empty))) = Inr profile_B"
    by (simp add: example_defs get_object_def StudentProfileViewSet_get_queryset_def
                  role_defs filter_if_def)
  have r: "objects_get room_id 1 (rooms example_db) = Some room_101"
    by (simp add: example_defs objects_get_def)
  have r': "objects_get room_id 1 (rooms example_db_taken) = Some room_101_taken"
    by (simp add: example_defs objects_get_def)
  have v: "is_available example_db room_101"
    by (simp add: example_defs is_available_def current_occupancy_def)
  have v': "\<not> is_available example_db_taken room_101_taken"
    by (simp add: example_defs is_available_def current_occupancy_def)
  have e: "room_id room_101 = 1"
          "profile_A\<lparr>sp_room := Some 1, sp_updated_at := t1\<rparr> = profile_A_in_101"
          "sp_room profile_A_in_101 = Some 1"
    by (simp_all add: profile_A_in_101_def room_101_def)
  obtain d' where
    A: "StudentProfileViewSet_assign_room t1 example_db
          (request_of admin_user Map.empty) 1 (Some 1) = (Inr profile_A_in_101, d')"
    and S: "StudentProfile_save t1 example_db (profile_A\<lparr>sp_room := Some 1\<rparr>) = Inr d'"
    and F: "find (\<lambda>x. sp_id x = 1) (students d') = Some profile_A_in_101"
    using assign_room_iff_available [OF u a r, of t1, unfolded e(1,2)] v by blast
  have d': "d' = example_db_taken"
    using S example_save by simp
  show ?thesis
    using A F assign_room_iff_available [OF u b r', of t2] v v' e(3)
    unfolding d' by blast
qed

text \<open>
  C6. A successful save of an active StudentProfile whose room reference is set leaves
  the profile stored with that room reference; the room then has at least one active
  occupant, and if its status was vacant before, it is occupied afterwards.
\<close>

theorem StudentProfile_save_occupies_room:
  assumes "StudentProfile_save now d self = Inr d'"
      and "is_active self"
      and "sp_room self = Some rid"
  shows "\<exists>room room' s.
           objects_get room_id (int rid) (rooms d) = Some room
         \<and> objects_get room_id (int rid) (rooms d') = Some room'
         \<and> find (\<lambda>x. sp_id x = sp_id self) (students d') = Some s
         \<and> sp_room s = Some rid
         \<and> 0 < current_occupancy d' room'
         \<and> (0 < current_occupancy d' room' \<and> room_status room = VACANT
              \<longrightarrow> room_status room' = OCCUPIED)"
proof -
  obtain room where r: "objects_get room_id (int rid) (rooms d) = Some room"
    using assms by (auto simp: StudentProfile_save_def StudentProfile_super_save_def Let_def
                        split: option.splits sum.splits)
  have rid: "room_id room = rid" using objects_get_self[OF r] by simp
  define row where "row = (if list_ex (\<lambda>x. sp_id x = sp_id self) (students d)
                 then self\<lparr>sp_updated_at := now\<rparr>
                 else self\<lparr>sp_created_at := now, sp_updated_at := now\<rparr>)"
  define d1 where "d1 = d\<lparr>students := save_row sp_id row (students d)\<rparr>"
  have row: "sp_id row = sp_id self" "sp_room row = Some rid" "is_active row"
    using assms(2,3) by (auto simp: row_def)
  have ss: "StudentProfile_super_save now d self = Inr d1"
    using r assms(3) by (simp add: StudentProfile_super_save_def Let_def row_def d1_def)
  have r1: "objects_get room_id (int rid) (rooms d1) = Some room"
    using r by (simp add: d1_def)
  have f1: "find (\<lambda>x. sp_id x = sp_id self) (students d1) = Some row"
    using find_save_row[of sp_id row "students d"] row(1) by (simp add: d1_def)
  have occ: "0 < current_occupancy d1 room"
    using occupancy_positive[of row d1 room] in_save_row[of row sp_id "students d"] row rid
    by (simp add: d1_def)
  show ?thesis
  proof (cases "room_status room = VACANT")
    case True
    then have d': "d' = Room_save now d1 (room\<lparr>room_status := OCCUPIED\<rparr>)"
      using assms ss r1 occ by (simp add: StudentProfile_save_def)
    have "objects_get room_id (int rid) (rooms d')
            = Some (room\<lparr>room_status := OCCUPIED, room_updated_at := now\<rparr>)"
      unfolding d' using objects_get_Room_save[OF r1, of "room\<lparr>room_status := OCCUPIED\<rparr>" now]
      by simp
    then show ?thesis
      using r f1 row occ d'
            current_occupancy_room_id
              [of "room\<lparr>room_status := OCCUPIED, room_updated_at := now\<rparr>" room d1]
      by simp
  next
    case False
    then have d': "d' = d1"
      using assms ss r1 by (simp add: StudentProfile_save_def)
    then show ?thesis using r r1 f1 row occ False by simp
  qed
qed

theorem StudentProfile_save_occupies_room_witness:
  "StudentProfile_save t1 example_db (profile_A\<lparr>sp_room := Some 1\<rparr>) = Inr example_db_taken
   \<and> room_status room_101 = VACANT
   \<and> (\<exists>room'. objects_get room_id 1 (rooms example_db_taken) = Some room'
          \<and> room_status room' = OCCUPIED \<and> 0 < current_occupancy example_db_taken room')
   \<and> (\<exists>s. find (\<lambda>x. sp_id x = 1) (students example_db_taken) = Some s \<and> sp_room s = Some 1)"
proof -
  have a: "is_active (profile_A\<lparr>sp_room := Some 1\<rparr>)"
    and b: "sp_room (profile_A\<lparr>sp_room := Some 1\<rparr>) = Some 1"
    and i: "sp_id (profile_A\<lparr>sp_room := Some 1\<rparr>) = 1"
    by (simp_all add: profile_A_def)
  have r: "objects_get room_id (int 1) (rooms example_db) = Some room_101"
    by (simp add: example_defs objects_get_def)
  have v: "room_status room_101 = VACANT"
    by (simp add: room_101_def)
  show ?thesis
    using StudentProfile_save_occupies_room [OF example_save a b] r v i example_save
    by auto
qed

section \<open>Frame of StudentProfile.save on rooms\<close>

text \<open>
  C10, as stated, fails: the \<^verbatim>\<open>self.room.save()\<close> that records the new status
  also stamps the room's \<^verbatim>\<open>updated_at\<close> (\<^verbatim>\<open>auto_now=True\<close>). Saving the first
  student with room 101 at \<open>t1\<close> moves that room's \<^verbatim>\<open>updated_at\<close> from \<open>t0\<close>
  to \<open>t1\<close>.
\<close>

theorem StudentProfile_save_stamps_room_updated_at:
  "StudentProfile_save t1 example_db (profile_A\<lparr>sp_room := Some 1\<rparr>) = Inr example_db_taken
   \<and> rooms example_db = [room_101]
   \<and> rooms example_db_taken = [room_101_taken]
   \<and> room_updated_at room_101 = t0
   \<and> room_updated_at room_101_taken = t1
   \<and> t0 \<noteq> t1
   \<and> room_101_taken \<noteq> room_101\<lparr>room_status := OCCUPIED\<rparr>"
  using example_save by (simp add: example_defs)

text \<open>
  C10, amended. In a store whose rooms have distinct primary keys, a successful save of a
  StudentProfile leaves every room as it was, except possibly the room the profile
  references: that room's status goes from vacant to occupied and its
  \<^verbatim>\<open>updated_at\<close> is set to the clock, and only when the profile is active and the
  room has at least one active occupant. No other field and no other status value is
  written; when the profile has no room or is inactive, every room is unchanged.
\<close>

theorem StudentProfile_save_rooms_frame:
  assumes "StudentProfile_save now d self = Inr d'"
      and "distinct (map room_id (rooms d))"
  shows "list_all2
           (\<lambda>r r'. r' = r
                  \<or> (r' = r\<lparr>room_status := OCCUPIED, room_updated_at := now\<rparr>
                     \<and> room_status r = VACANT \<and> is_active self
                     \<and> sp_room self = Some (room_id r) \<and> 0 < current_occupancy d' r))
           (rooms d) (rooms d')
       \<and> (sp_room self = None \<or> \<not> is_active self \<longrightarrow> rooms d' = rooms d)"
proof -
  define row where "row = (if list_ex (\<lambda>x. sp_id x = sp_id self) (students d)
                 then self\<lparr>sp_updated_at := now\<rparr>
                 else self\<lparr>sp_created_at := now, sp_updated_at := now\<rparr>)"
  define d1 where "d1 = d\<lparr>students := save_row sp_id row (students d)\<rparr>"
  have ss: "StudentProfile_super_save now d self = Inr d1"
    using assms(1)
    by (auto simp: StudentProfile_save_def StudentProfile_super_save_def Let_def row_def d1_def
             split: option.splits sum.splits)
  have rd1: "rooms d1 = rooms d" by (simp add: d1_def)
  show ?thesis
  proof (cases "sp_room self")
    case None
    then have "d' = d1" using assms(1) ss by (simp add: StudentProfile_save_def)
    then show ?thesis using rd1 None by (simp add: list_all2_same)
  next
    case (Some rid)
    show ?thesis
    proof (cases "is_active self")
      case False
      then have "d' = d1" using assms(1) ss Some by (simp add: StudentProfile_save_def)
      then show ?thesis using rd1 False by (simp add: list_all2_same)
    next
      case True
      obtain room where r: "objects_get room_id (int rid) (rooms d1) = Some room"
        using assms(1) ss Some True
        by (auto simp: StudentProfile_save_def split: option.splits)
      have rid: "room_id room = rid" using objects_get_self[OF r] by simp
      have mem: "room \<in> set (rooms d)"
        using r rd1 by (auto simp: objects_get_def find_Some_iff)
      show ?thesis
      proof (cases "0 < current_occupancy d1 room \<and> room_status room = VACANT")
        case False
        then have "d' = d1"
          using assms(1) ss Some True r by (auto simp: StudentProfile_save_def)
        then show ?thesis using rd1 Some True by (simp add: list_all2_same)
      next
        case c: True
        then have d': "d' = Room_save now d1 (room\<lparr>room_status := OCCUPIED\<rparr>)"
          using assms(1) ss Some True r by (simp add: StudentProfile_save_def)
        have "rooms d' = map (\<lambda>x. if x = room
                  then room\<lparr>room_status := OCCUPIED, room_updated_at := now\<rparr> else x) (rooms d)"
          unfolding d'
          using rooms_Room_save_existing
                  [of d1 room "room\<lparr>room_status := OCCUPIED\<rparr>" now] assms(2) mem rd1
          by simp
        moreover have "0 < current_occupancy d' room"
          using c by (simp add: d')
        ultimately show ?thesis
          using Some True c rid by (simp add: list_all2_map_same)
      qed
    qed
  qed
qed

theorem StudentProfile_save_rooms_frame_witness:
  "StudentProfile_save t1 example_db (profile_A\<lparr>sp_room := Some 1\<rparr>) = Inr example_db_taken
   \<and> distinct (map room_id (rooms example_db))
   \<and> list_all2
        (\<lambda>r r'. r' = r
               \<or> (r' = r\<lparr>room_status := OCCUPIED, room_updated_at := t1\<rparr>
                  \<and> room_status r = VACANT \<and> is_active (profile_A\<lparr>sp_room := Some 1\<rparr>)
                  \<and> sp_room (profile_A\<lparr>sp_room := Some 1\<rparr>) = Some (room_id r)
                  \<and> 0 < current_occupancy example_db_taken r))
        (rooms example_db) (rooms example_db_taken)"
proof -
  have d: "distinct (map room_id (rooms example_db))"
    by (simp add: example_defs)
  show ?thesis
    using StudentProfile_save_rooms_frame [OF example_save d] example_save d
    by simp
qed

section \<open>Fee lifecycle\<close>

text \<open>
  C3, as stated, fails for reads: only \<^verbatim>\<open>Fee.save\<close> re-stamps a fee, and no read
  path calls it. The example fee is unpaid with due date 150; retrieving and listing it
  on day 200 return it with status unpaid, as stored.
\<close>

theorem Fee_read_keeps_unpaid:
  "fee_status fee_A = UNPAID
   \<and> due_date fee_A < date_of t1
   \<and> FeeViewSet_retrieve example_db (request_of admin_user Map.empty) 1 = Inr fee_A
   \<and> FeeViewSet_list example_db (request_of admin_user Map.empty) = Inr [fee_A]"
  by (simp add: example_defs query_defs role_defs permission_defs FeeViewSet_get_queryset_def
                FeeViewSet_retrieve_def FeeViewSet_list_def)

text \<open>
  C3, amended. Every save of a fee at a date \<open>T\<close> stores it with status overdue when
  its status is unpaid and its due date is strictly before \<open>T\<close>, and stores a paid fee
  as paid; a read (list or retrieve) returns rows of the store as they are.
\<close>

theorem Fee_save_overdue:
  "(Fee_save now d self = (row, d') \<longrightarrow>
      find (\<lambda>x. fee_id x = fee_id self) (fees d') = Some row
      \<and> (fee_status self = UNPAID \<and> due_date self < date_of now \<longrightarrow> fee_status row = OVERDUE)
      \<and> (fee_status self = PAID \<longrightarrow> fee_status row = PAID))
   \<and> (FeeViewSet_list d request = Inr fs \<longrightarrow> set fs \<subseteq> set (fees d))
   \<and> (FeeViewSet_retrieve d request pk = Inr f \<longrightarrow> f \<in> set (fees d))"
proof -
  have save: "find (\<lambda>x. fee_id x = fee_id self) (fees d') = Some row
      \<and> (fee_status self = UNPAID \<and> due_date self < date_of now \<longrightarrow> fee_status row = OVERDUE)
      \<and> (fee_status self = PAID \<longrightarrow> fee_status row = PAID)"
    if a: "Fee_save now d self = (row, d')"
    using Fee_save_stored[OF a] a by (auto simp: Fee_save_def Let_def split: if_splits)
  have list: "set fs \<subseteq> set (fees d)" if "FeeViewSet_list d request = Inr fs"
    using that FeeViewSet_get_queryset_subset
    by (auto simp: FeeViewSet_list_def bind_result_def split: sum.splits)
  have retrieve: "f \<in> set (fees d)" if "FeeViewSet_retrieve d request pk = Inr f"
    using that fee_lookup
    by (auto simp: FeeViewSet_retrieve_def bind_result_def split: sum.splits)
  show ?thesis using save list retrieve by blast
qed

theorem Fee_save_overdue_witness:
  "fee_status fee_A = UNPAID
   \<and> due_date fee_A < date_of t1
   \<and> (\<exists>row d'. Fee_save t1 example_db fee_A = (row, d')
         \<and> find (\<lambda>x. fee_id x = fee_id fee_A) (fees d') = Some row
         \<and> fee_status row = OVERDUE)
   \<and> fee_status (fee_A_paid t1 ''Cash'') = PAID
   \<and> (\<exists>row d'. Fee_save t2 (example_db_paid t1 ''Cash'') (fee_A_paid t1 ''Cash'') = (row, d')
         \<and> fee_status row = PAID)
   \<and> set [fee_A] \<subseteq> set (fees example_db)"
proof -
  have a: "fee_status fee_A = UNPAID" "due_date fee_A < date_of t1"
    by (simp_all add: example_defs date_of_def)
  have b: "fee_status (fee_A_paid t1 ''Cash'') = PAID"
    by (simp add: fee_A_paid_def)
  have l: "FeeViewSet_list example_db (request_of admin_user Map.empty) = Inr [fee_A]"
    by (simp add: example_defs query_defs role_defs permission_defs FeeViewSet_get_queryset_def
                  FeeViewSet_list_def)
  show ?thesis
    using a b l
      Fee_save_overdue [of t1 example_db fee_A "fst (Fee_save t1 example_db fee_A)"
        "snd (Fee_save t1 example_db fee_A)" "request_of admin_user Map.empty" "[fee_A]"]
      Fee_save_overdue [of t2 "example_db_paid t1 ''Cash''" "fee_A_paid t1 ''Cash''"
        "fst (Fee_save t2 (example_db_paid t1 ''Cash'') (fee_A_paid t1 ''Cash''))"
        "snd (Fee_save t2 (example_db_paid t1 ''Cash'') (fee_A_paid t1 ''Cash''))"]
    by (metis prod.collapse)
qed

text \<open>
  C7, as stated, fails in its last part: \<^verbatim>\<open>fee.save()\<close> stamps the fee's
  \<^verbatim>\<open>updated_at\<close> (\<^verbatim>\<open>auto_now=True\<close>) with the clock of each application. Marking
  the example fee paid with "Cash" at \<open>t1\<close> and again with "Cash" at \<open>t2\<close>, a later
  time of the same day, leaves a different fee and a different store.
\<close>

theorem mark_paid_again_restamps:
  "date_of t1 = date_of t2
   \<and> FeeViewSet_mark_paid t1 example_db (request_of admin_user Map.empty) 1 (Some ''Cash'')
       = (Inr (fee_A_paid t1 ''Cash''), example_db_paid t1 ''Cash'')
   \<and> FeeViewSet_mark_paid t2 (example_db_paid t1 ''Cash'') (request_of admin_user Map.empty) 1
         (Some ''Cash'')
       = (Inr (fee_A_paid t2 ''Cash''), example_db_paid t2 ''Cash'')
   \<and> fee_A_paid t2 ''Cash'' \<noteq> fee_A_paid t1 ''Cash''
   \<and> example_db_paid t2 ''Cash'' \<noteq> example_db_paid t1 ''Cash''
   \<and> fee_updated_at (fee_A_paid t1 ''Cash'') = t1
   \<and> fee_updated_at (fee_A_paid t2 ''Cash'') = t2"
proof -
  have u: "fee_updated_at (fee_A_paid t1 ''Cash'') = t1" "fee_updated_at (fee_A_paid t2 ''Cash'') = t2"
    by (simp_all add: fee_A_paid_def)
  have t: "t1 \<noteq> t2" "date_of t1 = date_of t2"
    by (simp_all add: t1_def t2_def date_of_def)
  have f: "fee_A_paid t2 ''Cash'' \<noteq> fee_A_paid t1 ''Cash''"
    using u t by auto
  have "fees (example_db_paid t2 ''Cash'') \<noteq> fees (example_db_paid t1 ''Cash'')"
    using f by (simp add: example_db_paid_def)
  then have d: "example_db_paid t2 ''Cash'' \<noteq> example_db_paid t1 ''Cash''"
    by auto
  show ?thesis
    using example_mark_paid [of t1 "''Cash''"]
          example_mark_paid_again [of t2 t1 "''Cash''" "''Cash''"] u t f d
    by simp
qed

text \<open>
  C7, amended. In a store whose fees have distinct primary keys, for a logged-in requester
  whose query set holds the fee (in any status) and every method \<open>m\<close>:
  \<^verbatim>\<open>mark_paid\<close> succeeds and stores the fee with status paid, \<^verbatim>\<open>paid_date\<close> the
  current date, \<^verbatim>\<open>payment_method\<close> \<open>m\<close> and \<^verbatim>\<open>updated_at\<close> the clock. A second
  application (same or different method) to the fee so stored succeeds and leaves
  exactly what a single application with the later clock and method leaves on the
  original store: it overwrites \<^verbatim>\<open>payment_method\<close>, \<^verbatim>\<open>paid_date\<close> and
  \<^verbatim>\<open>updated_at\<close>. At the same clock reading and method it changes nothing; on the same
  date with the same method it changes \<^verbatim>\<open>updated_at\<close> only.
\<close>

theorem mark_paid_overwrites:
  assumes "distinct (map fee_id (fees d))"
      and "req_user request = Some u"
      and "bind_result (FeeViewSet_get_queryset d u (query_params request))
             (get_object fee_id pk) = Inr fee"
      and "FeeViewSet_mark_paid now d request pk (Some m) = (response, d1)"
      and "req_user request' = Some u'"
      and "bind_result (FeeViewSet_get_queryset d1 u' (query_params request'))
             (get_object fee_id pk) = Inr fee1"
  shows "response = Inr (fee\<lparr>fee_status := PAID, paid_date := Some (date_of now),
                             payment_method := Some m, fee_updated_at := now\<rparr>)
       \<and> find (\<lambda>x. fee_id x = pk) (fees d1)
           = Some (fee\<lparr>fee_status := PAID, paid_date := Some (date_of now),
                       payment_method := Some m, fee_updated_at := now\<rparr>)
       \<and> fee1 = fee\<lparr>fee_status := PAID, paid_date := Some (date_of now),
                      payment_method := Some m, fee_updated_at := now\<rparr>
       \<and> FeeViewSet_mark_paid now' d1 request' pk (Some m')
           = (Inr (fee\<lparr>fee_status := PAID, paid_date := Some (date_of now'),
                       payment_method := Some m', fee_updated_at := now'\<rparr>),
              d\<lparr>fees := map (\<lambda>x. if x = fee
                                 then fee\<lparr>fee_status := PAID, paid_date := Some (date_of now'),
                                          payment_method := Some m', fee_updated_at := now'\<rparr>
                                 else x) (fees d)\<rparr>)
       \<and> FeeViewSet_mark_paid now d1 request' pk (Some m) = (response, d1)
       \<and> (date_of now' = date_of now \<longrightarrow>
            fst (FeeViewSet_mark_paid now' d1 request' pk (Some m))
              = Inr (fee1\<lparr>fee_updated_at := now'\<rparr>))"
proof -
  define row where "row = fee\<lparr>fee_status := PAID, paid_date := Some (date_of now),
                             payment_method := Some m, fee_updated_at := now\<rparr>"
  have mem: "fee \<in> set (fees d)" and pk: "fee_id fee = pk"
    using fee_lookup[OF assms(3)] by auto
  have first: "response = Inr row"
    and d1: "d1 = d\<lparr>fees := map (\<lambda>x. if x = fee then row else x) (fees d)\<rparr>"
    using mark_paid_once[OF assms(1,2,3), of now m] assms(4) by (simp_all add: row_def)
  have idr: "fee_id row = fee_id fee" by (simp add: row_def)
  have "map fee_id (fees d1) = map fee_id (fees d)"
    using map_pk_replace[of fee_id row fee "fees d"] idr by (simp add: d1 del: map_map)
  then have ids1: "distinct (map fee_id (fees d1))"
    using assms(1) by (simp only:)
  have rowmem: "row \<in> set (fees d1)"
    using mem by (auto simp: d1)
  have mem1: "fee1 \<in> set (fees d1)" and pk1: "fee_id fee1 = pk"
    using fee_lookup[OF assms(6)] by auto
  have eq1: "fee1 = row"
    using distinct_pk_eq[OF ids1 mem1 rowmem] pk1 idr pk by simp
  have stored: "find (\<lambda>x. fee_id x = pk) (fees d1) = Some row"
    using find_map_replace_id[OF assms(1) mem, of row] idr pk
    by (simp add: d1)
  have second: "FeeViewSet_mark_paid t d1 request' pk (Some k)
           = (Inr (fee\<lparr>fee_status := PAID, paid_date := Some (date_of t),
                       payment_method := Some k, fee_updated_at := t\<rparr>),
              d\<lparr>fees := map (\<lambda>x. if x = fee
                                 then fee\<lparr>fee_status := PAID, paid_date := Some (date_of t),
                                          payment_method := Some k, fee_updated_at := t\<rparr>
                                 else x) (fees d)\<rparr>)" for t k
  proof -
    let ?R = "fee\<lparr>fee_status := PAID, paid_date := Some (date_of t),
                   payment_method := Some k, fee_updated_at := t\<rparr>"
    have b: "row\<lparr>fee_status := PAID, paid_date := Some (date_of t),
                  payment_method := Some k, fee_updated_at := t\<rparr> = ?R"
      by (simp add: row_def)
    have a: "FeeViewSet_mark_paid t d1 request' pk (Some k)
               = (Inr ?R, d1\<lparr>fees := map (\<lambda>x. if x = row then ?R else x) (fees d1)\<rparr>)"
      using mark_paid_once[OF ids1 assms(5,6), of t k] b by (simp add: eq1)
    have c: "d1\<lparr>fees := map (\<lambda>x. if x = row then ?R else x) (fees d1)\<rparr>
               = d\<lparr>fees := map (\<lambda>x. if x = fee then ?R else x) (fees d)\<rparr>"
      using map_replace_twice[OF assms(1) mem idr, of ?R] by (simp add: d1 del: map_map)
    show ?thesis using a c by (simp only:)
  qed
  show ?thesis
    using first stored eq1 second[of now' m'] second[of now m] second[of now' m] d1
    by (simp add: row_def)
qed


theorem mark_paid_overwrites_witness:
  "distinct (map fee_id (fees example_db))
   \<and> FeeViewSet_mark_paid t1 example_db (request_of admin_user Map.empty) 1 (Some ''Cash'')
       = (Inr (fee_A_paid t1 ''Cash''), example_db_paid t1 ''Cash'')
   \<and> find (\<lambda>x. fee_id x = 1) (fees (example_db_paid t1 ''Cash''))
       = Some (fee_A\<lparr>fee_status := PAID, paid_date := Some (date_of t1),
                     payment_method := Some ''Cash'', fee_updated_at := t1\<rparr>)
   \<and> FeeViewSet_mark_paid t2 (example_db_paid t1 ''Cash'') (request_of admin_user Map.empty) 1
         (Some ''Card'')
       = (Inr (fee_A\<lparr>fee_status := PAID, paid_date := Some (date_of t2),
                     payment_method := Some ''Card'', fee_updated_at := t2\<rparr>),
          example_db\<lparr>fees := map (\<lambda>x. if x = fee_A
                   then fee_A\<lparr>fee_status := PAID, paid_date := Some (date_of t2),
                              payment_method := Some ''Card'', fee_updated_at := t2\<rparr>
                   else x) (fees example_db)\<rparr>)
   \<and> FeeViewSet_mark_paid t1 (example_db_paid t1 ''Cash'') (request_of admin_user Map.empty) 1
         (Some ''Cash'')
       = (Inr (fee_A_paid t1 ''Cash''), example_db_paid t1 ''Cash'')"
proof -
  have ids: "distinct (map fee_id (fees example_db))"
    by (simp add: example_defs)
  have u: "req_user (request_of admin_user Map.empty) = Some admin_user"
    by (simp add: request_of_def)
  have l2: "bind_result (FeeViewSet_get_queryset (example_db_paid t1 ''Cash'') admin_user
                  (query_params (request_of admin_user Map.empty)))
              (get_object fee_id 1) = Inr (fee_A_paid t1 ''Cash'')"
    by (simp add: example_defs query_defs role_defs FeeViewSet_get_queryset_def)
  show ?thesis
    using mark_paid_overwrites
            [OF ids u example_fee_lookup example_mark_paid [of t1 "''Cash''"] u l2,
             of t2 "''Card''"]
          ids example_mark_paid [of t1 "''Cash''"]
    by simp
qed

section \<open>Role scoping of fees\<close>

text \<open>
  What \<^verbatim>\<open>FeeViewSet.get_queryset\<close> does by role, with no optional filter: an
  admin (or warden) is given every fee; a student who has a profile is given the fees of
  that profile only; a student who has no profile is given every fee.
\<close>

lemma FeeViewSet_scoping:
  "(\<not> is_student u \<longrightarrow> FeeViewSet_get_queryset d u Map.empty = Inr (fees d))
   \<and> (is_student u \<and> student_profile d u = Some p \<longrightarrow>
        FeeViewSet_get_queryset d u Map.empty
          = Inr (filter (\<lambda>f. fee_student f = sp_id p) (fees d)))
   \<and> (is_student u \<and> student_profile d u = None \<longrightarrow>
        FeeViewSet_get_queryset d u Map.empty = Inr (fees d))"
  by (simp add: FeeViewSet_get_queryset_def own_records_def filter_if_def
                filter_student_id_if_def)

text \<open>
  C4 at the failing input: \<open>user_new\<close> has role student and no StudentProfile (as
  after registration). The only fee of the store belongs to the profile of another user,
  and the student's list request returns it.
\<close>

theorem FeeViewSet_list_student_without_profile:
  "role user_new = STUDENT
   \<and> student_profile example_db user_new = None
   \<and> fees example_db = [fee_A]
   \<and> student_profile example_db user_A = Some profile_A
   \<and> fee_student fee_A = sp_id profile_A
   \<and> sp_user profile_A \<noteq> user_id user_new
   \<and> FeeViewSet_list example_db (request_of user_new Map.empty) = Inr [fee_A]"
  by (simp add: example_defs query_defs role_defs permission_defs FeeViewSet_get_queryset_def
                FeeViewSet_list_def)

section \<open>Dashboard\<close>

text \<open>
  What \<^verbatim>\<open>dashboard_stats\<close> returns to an admin while both sums have at most ten
  digits (they are below 100000000.00 in absolute value): under
  \<^verbatim>\<open>total_fees_amount\<close> the sum of \<^verbatim>\<open>amount\<close> over all fees of the store and
  under \<^verbatim>\<open>paid_fees_amount\<close> the sum over exactly the fees whose status is paid, each
  0 when there is no such fee.
\<close>

lemma dashboard_stats_fee_amounts_in_range:
  assumes "req_user request = Some u" and "is_admin u"
      and "\<bar>sum_list (map amount (fees d))\<bar> < 10 ^ 10"
      and "\<bar>sum_list (map amount (filter (\<lambda>f. fee_status f = PAID) (fees d)))\<bar> < 10 ^ 10"
  shows "\<exists>data. dashboard_stats now d request = Inr data
          \<and> data ''total_fees_amount''
              = Some (DecimalValue (sum_list (map amount (fees d))))
          \<and> data ''paid_fees_amount''
              = Some (DecimalValue (sum_list (map amount
                                      (filter (\<lambda>f. fee_status f = PAID) (fees d)))))"
proof -
  have s: "\<not> is_student u" using assms(2) by (simp add: role_defs)
  have o: "or_0 (aggregate_Sum xs) = sum_list xs" for xs
    by (simp add: aggregate_Sum_def)
  show ?thesis
    using assms s
    by (simp add: dashboard_stats_def permitted_authenticated Let_def o
                  DashboardStatsSerializer_def quantize_def)
qed

text \<open>
  C8 at the failing input: the store holds two fees of 60000000.00 each, both valid for
  \<^verbatim>\<open>Fee.amount\<close> (ten digits). Their sum, 120000000.00, has eleven digits; the
  field \<^verbatim>\<open>total_fees_amount\<close> of \<^verbatim>\<open>DashboardStatsSerializer\<close> has
  \<^verbatim>\<open>max_digits=10\<close>, and the admin's request ends in
  \<^verbatim>\<open>decimal.InvalidOperation\<close> instead of returning the sum.
\<close>

theorem dashboard_stats_total_overflow:
  "is_admin admin_user
   \<and> fees example_db_big = [fee_big_1, fee_big_2]
   \<and> amount fee_big_1 = 6000000000
   \<and> amount fee_big_2 = 6000000000
   \<and> sum_list (map amount (fees example_db_big)) = 12000000000
   \<and> dashboard_stats t1 example_db_big (request_of admin_user Map.empty) = Inl InvalidOperation"
  by (simp add: example_defs query_defs role_defs dashboard_stats_def Let_def
                aggregate_Sum_def DashboardStatsSerializer_def quantize_def)

section \<open>Permissions of a warden\<close>

text \<open>
  C5, as stated, fails for the entity ContactMessage: \<^verbatim>\<open>ContactMessageViewSet\<close>
  gives every action but \<^verbatim>\<open>create\<close> to admins only, so a warden can neither list
  nor retrieve the message of the example store.
\<close>

theorem warden_cannot_read_contact_messages:
  "is_warden warden_user
   \<and> contact_messages example_db = [contact_1]
   \<and> cm_id contact_1 = 1
   \<and> ContactMessageViewSet_list example_db (request_of warden_user Map.empty)
       = Inl PermissionDenied
   \<and> ContactMessageViewSet_retrieve example_db (request_of warden_user Map.empty) 1
       = Inl PermissionDenied"
  by (simp add: example_defs query_defs role_defs permission_defs
                ContactMessageViewSet_list_def ContactMessageViewSet_retrieve_def)

text \<open>
  C5, amended. For every user with role warden: the list and retrieve actions of Room,
  StudentProfile, Fee, Attendance, Visitor, Complaint and MessMenu pass the permission
  check and, with no filter, give every record of the store, while those of
  ContactMessage are rejected with \<^verbatim>\<open>PermissionDenied\<close>; create, update and
  partial\_update of Attendance and Visitor and the resolve action of Complaint pass the
  permission check; and create, update, partial\_update and destroy of Room,
  StudentProfile, Fee and MessMenu are rejected with \<^verbatim>\<open>PermissionDenied\<close>.
\<close>

theorem warden_access:
  assumes "is_warden u"
  shows
   "list_all (\<lambda>a. check_permissions (RoomViewSet_get_permissions a) (Some u) = None
                \<and> check_permissions (StudentProfileViewSet_get_permissions a) (Some u) = None
                \<and> check_permissions (FeeViewSet_get_permissions a) (Some u) = None
                \<and> check_permissions (AttendanceViewSet_get_permissions a) (Some u) = None
                \<and> check_permissions (VisitorViewSet_get_permissions a) (Some u) = None
                \<and> check_permissions (ComplaintViewSet_get_permissions a) (Some u) = None
                \<and> check_permissions (MessMenuViewSet_get_permissions a) (Some u) = None
                \<and> check_permissions (ContactMessageViewSet_get_permissions a) (Some u)
                    = Some PermissionDenied)
      [''list'', ''retrieve'']
    \<and> RoomViewSet_list d (request_of u Map.empty) = Inr (rooms d)
    \<and> StudentProfileViewSet_list d (request_of u Map.empty) = Inr (students d)
    \<and> FeeViewSet_list d (request_of u Map.empty) = Inr (fees d)
    \<and> AttendanceViewSet_list to_date d (request_of u Map.empty) = Inr (attendances d)
    \<and> VisitorViewSet_list now d (request_of u Map.empty) = Inr (visitors d)
    \<and> ComplaintViewSet_list d (request_of u Map.empty) = Inr (complaints d)
    \<and> MessMenuViewSet_list to_date d (request_of u Map.empty) = Inr (mess_menus d)
    \<and> RoomViewSet_retrieve d (request_of u Map.empty) pk = get_object room_id pk (rooms d)
    \<and> StudentProfileViewSet_retrieve d (request_of u Map.empty) pk
        = get_object sp_id pk (students d)
    \<and> FeeViewSet_retrieve d (request_of u Map.empty) pk = get_object fee_id pk (fees d)
    \<and> AttendanceViewSet_retrieve to_date d (request_of u Map.empty) pk
        = get_object att_id pk (attendances d)
    \<and> VisitorViewSet_retrieve now d (request_of u Map.empty) pk
        = get_object visitor_id pk (visitors d)
    \<and> ComplaintViewSet_retrieve d (request_of u Map.empty) pk
        = get_object complaint_id pk (complaints d)
    \<and> MessMenuViewSet_retrieve to_date d (request_of u Map.empty) pk
        = get_object menu_id pk (mess_menus d)
    \<and> ContactMessageViewSet_list d (request_of u Map.empty) = Inl PermissionDenied
    \<and> ContactMessageViewSet_retrieve d (request_of u Map.empty) pk = Inl PermissionDenied
    \<and> list_all (\<lambda>a. check_permissions (AttendanceViewSet_get_permissions a) (Some u) = None
                  \<and> check_permissions (VisitorViewSet_get_permissions a) (Some u) = None)
        [''create'', ''update'', ''partial_update'']
    \<and> check_permissions (ComplaintViewSet_get_permissions ''resolve'') (Some u) = None
    \<and> list_all (\<lambda>a. check_permissions (RoomViewSet_get_permissions a) (Some u)
                      = Some PermissionDenied
                  \<and> check_permissions (StudentProfileViewSet_get_permissions a) (Some u)
                      = Some PermissionDenied
                  \<and> check_permissions (FeeViewSet_get_permissions a) (Some u)
                      = Some PermissionDenied
                  \<and> check_permissions (MessMenuViewSet_get_permissions a) (Some u)
                      = Some PermissionDenied)
        [''create'', ''update'', ''partial_update'', ''destroy'']"
proof -
  note r = warden_roles[OF assms] assms
  have perms: "permitted [IsAuthenticated] (request_of u Map.empty) = Inr u"
              "permitted [IsAdmin] (request_of u Map.empty) = Inl PermissionDenied"
    using r by (simp_all add: permitted_def check_permissions_def request_of_def)
  have reads: "list_all (\<lambda>a. check_permissions (RoomViewSet_get_permissions a) (Some u) = None
                \<and> check_permissions (StudentProfileViewSet_get_permissions a) (Some u) = None
                \<and> check_permissions (FeeViewSet_get_permissions a) (Some u) = None
                \<and> check_permissions (AttendanceViewSet_get_permissions a) (Some u) = None
                \<and> check_permissions (VisitorViewSet_get_permissions a) (Some u) = None
                \<and> check_permissions (ComplaintViewSet_get_permissions a) (Some u) = None
                \<and> check_permissions (MessMenuViewSet_get_permissions a) (Some u) = None
                \<and> check_permissions (ContactMessageViewSet_get_permissions a) (Some u)
                    = Some PermissionDenied)
      [''list'', ''retrieve'']"
    using r by (simp add: permission_defs check_permissions_def)
  have qp: "query_params (request_of u Map.empty) = Map.empty"
    by (simp add: request_of_def)
  have q: "RoomViewSet_get_queryset d Map.empty = rooms d"
          "StudentProfileViewSet_get_queryset d u Map.empty = students d"
          "FeeViewSet_get_queryset d u Map.empty = Inr (fees d)"
          "AttendanceViewSet_get_queryset to_date d u Map.empty = Inr (attendances d)"
          "VisitorViewSet_get_queryset now d u Map.empty = Inr (visitors d)"
          "ComplaintViewSet_get_queryset d u Map.empty = Inr (complaints d)"
          "MessMenuViewSet_get_queryset to_date d Map.empty = Inr (mess_menus d)"
    using r
    by (simp_all add: RoomViewSet_get_queryset_def StudentProfileViewSet_get_queryset_def
          FeeViewSet_get_queryset_def AttendanceViewSet_get_queryset_def
          VisitorViewSet_get_queryset_def ComplaintViewSet_get_queryset_def
          MessMenuViewSet_get_queryset_def filter_if_def filter_student_id_if_def
          filter_date_if_def own_records_def)
  have lists: "RoomViewSet_list d (request_of u Map.empty) = Inr (rooms d)"
     "StudentProfileViewSet_list d (request_of u Map.empty) = Inr (students d)"
     "FeeViewSet_list d (request_of u Map.empty) = Inr (fees d)"
     "AttendanceViewSet_list to_date d (request_of u Map.empty) = Inr (attendances d)"
     "VisitorViewSet_list now d (request_of u Map.empty) = Inr (visitors d)"
     "ComplaintViewSet_list d (request_of u Map.empty) = Inr (complaints d)"
     "MessMenuViewSet_list to_date d (request_of u Map.empty) = Inr (mess_menus d)"
     "ContactMessageViewSet_list d (request_of u Map.empty) = Inl PermissionDenied"
    by (simp_all add: RoomViewSet_list_def StudentProfileViewSet_list_def FeeViewSet_list_def
          AttendanceViewSet_list_def VisitorViewSet_list_def ComplaintViewSet_list_def
          MessMenuViewSet_list_def ContactMessageViewSet_list_def
          permission_defs perms qp q bind_result_def)
  have retrieves:
     "RoomViewSet_retrieve d (request_of u Map.empty) pk = get_object room_id pk (rooms d)"
     "StudentProfileViewSet_retrieve d (request_of u Map.empty) pk
        = get_object sp_id pk (students d)"
     "FeeViewSet_retrieve d (request_of u Map.empty) pk = get_object fee_id pk (fees d)"
     "AttendanceViewSet_retrieve to_date d (request_of u Map.empty) pk
        = get_object att_id pk (attendances d)"
     "VisitorViewSet_retrieve now d (request_of u Map.empty) pk
        = get_object visitor_id pk (visitors d)"
     "ComplaintViewSet_retrieve d (request_of u Map.empty) pk
        = get_object complaint_id pk (complaints d)"
     "MessMenuViewSet_retrieve to_date d (request_of u Map.empty) pk
        = get_object menu_id pk (mess_menus d)"
     "ContactMessageViewSet_retrieve d (request_of u Map.empty) pk = Inl PermissionDenied"
    by (simp_all add: RoomViewSet_retrieve_def StudentProfileViewSet_retrieve_def
          FeeViewSet_retrieve_def AttendanceViewSet_retrieve_def VisitorViewSet_retrieve_def
          ComplaintViewSet_retrieve_def MessMenuViewSet_retrieve_def
          ContactMessageViewSet_retrieve_def
          permission_defs perms qp q bind_result_def)
  have writes: "list_all (\<lambda>a. check_permissions (AttendanceViewSet_get_permissions a) (Some u) = None
                  \<and> check_permissions (VisitorViewSet_get_permissions a) (Some u) = None)
        [''create'', ''update'', ''partial_update'']"
     "check_permissions (ComplaintViewSet_get_permissions ''resolve'') (Some u) = None"
    using r by (simp_all add: permission_defs check_permissions_def)
  have rejects: "list_all (\<lambda>a. check_permissions (RoomViewSet_get_permissions a) (Some u)
                      = Some PermissionDenied
                  \<and> check_permissions (StudentProfileViewSet_get_permissions a) (Some u)
                      = Some PermissionDenied
                  \<and> check_permissions (FeeViewSet_get_permissions a) (Some u)
                      = Some PermissionDenied
                  \<and> check_permissions (MessMenuViewSet_get_permissions a) (Some u)
                      = Some PermissionDenied)
        [''create'', ''update'', ''partial_update'', ''destroy'']"
    using r by (simp add: permission_defs check_permissions_def)
  show ?thesis
    using reads lists retrieves writes rejects by (simp only: simp_thms)
qed

theorem warden_access_witness:
  "is_warden warden_user
   \<and> FeeViewSet_list example_db (request_of warden_user Map.empty) = Inr [fee_A]
   \<and> RoomViewSet_retrieve example_db (request_of warden_user Map.empty) 1
       = get_object room_id 1 [room_101]
   \<and> check_permissions (AttendanceViewSet_get_permissions ''create'') (Some warden_user) = None
   \<and> check_permissions (VisitorViewSet_get_permissions ''update'') (Some warden_user) = None
   \<and> check_permissions (ComplaintViewSet_get_permissions ''resolve'') (Some warden_user) = None
   \<and> check_permissions (RoomViewSet_get_permissions ''create'') (Some warden_user)
       = Some PermissionDenied
   \<and> check_permissions (FeeViewSet_get_permissions ''destroy'') (Some warden_user)
       = Some PermissionDenied"
proof -
  have w: "is_warden warden_user"
    by (simp add: warden_user_def is_warden_def)
  have d: "fees example_db = [fee_A]" "rooms example_db = [room_101]"
    by (simp_all add: example_db_def)
  show ?thesis
    using warden_access [OF w, of example_db "\<lambda>t. None" t1 1] w d
    by simp
qed

text \<open>
  The extra actions are outside the amended C5. \<^verbatim>\<open>get_permissions\<close> answers
  \<^verbatim>\<open>IsAuthenticated\<close> for \<^verbatim>\<open>update_status\<close>, \<^verbatim>\<open>assign_room\<close>,
  \<^verbatim>\<open>mark_paid\<close> and \<^verbatim>\<open>resolve\<close>, so every logged-in user passes the check; the
  \<^verbatim>\<open>permission_classes\<close> named in their \<^verbatim>\<open>@action\<close> decorators are not
  consulted by the overriding method.
\<close>

lemma extra_actions_permissions:
  "check_permissions (RoomViewSet_get_permissions ''update_status'') (Some u) = None
   \<and> check_permissions (StudentProfileViewSet_get_permissions ''assign_room'') (Some u) = None
   \<and> check_permissions (FeeViewSet_get_permissions ''mark_paid'') (Some u) = None
   \<and> check_permissions (ComplaintViewSet_get_permissions ''resolve'') (Some u) = None"
  by (simp add: permission_defs check_permissions_def)

section \<open>Filters outside the enum domain\<close>

text \<open>
  C9, as stated, fails: a filter value is compared with the stored value and nothing
  validates it. Listing fees or rooms with \<^verbatim>\<open>status=bogus\<close> succeeds, with the
  empty result set.
\<close>

theorem list_bogus_status_succeeds:
  "FeeViewSet_list example_db (request_of admin_user [''status'' \<mapsto> ''bogus'']) = Inr []
   \<and> RoomViewSet_list example_db (request_of admin_user [''status'' \<mapsto> ''bogus'']) = Inr []
   \<and> fees example_db \<noteq> []
   \<and> rooms example_db \<noteq> []"
  by (simp add: example_defs query_defs role_defs permission_defs FeeViewSet_get_queryset_def
                FeeViewSet_list_def RoomViewSet_list_def RoomViewSet_get_queryset_def)

text \<open>
  C9, amended. A list request of a logged-in user that carries a non-empty filter value
  outside the enum domain of the filtered field (status or type of Room, fee\_status of
  StudentProfile, status of Fee, Attendance or Complaint) does not fail with a validation
  error for that field. On Room and StudentProfile it succeeds with the empty result set.
  On Fee, Attendance and Complaint it succeeds with the empty result set whenever it
  carries no \<^verbatim>\<open>student_id\<close> (and, on Attendance, no \<^verbatim>\<open>date\<close>) parameter;
  with such a parameter present it either succeeds with the empty result set or ends in
  the error of that other parameter: \<^verbatim>\<open>ValueError\<close> or
  \<^verbatim>\<open>OverflowError\<close> for \<^verbatim>\<open>student_id\<close>, the validation error of
  \<^verbatim>\<open>date\<close>.
\<close>

theorem list_filter_outside_enum:
  assumes "req_user request = Some u"
      and "v \<noteq> []"
  shows
   "(query_params request ''status'' = Some v
       \<and> v \<notin> set [''vacant'', ''occupied'', ''maintenance'']
       \<longrightarrow> RoomViewSet_list d request = Inr [])
    \<and> (query_params request ''type'' = Some v \<and> v \<notin> set [''single'', ''double'', ''triple'']
       \<longrightarrow> RoomViewSet_list d request = Inr [])
    \<and> (query_params request ''fee_status'' = Some v \<and> v \<notin> set [''unpaid'', ''paid'', ''overdue'']
       \<longrightarrow> StudentProfileViewSet_list d request = Inr [])
    \<and> (query_params request ''status'' = Some v \<and> v \<notin> set [''unpaid'', ''paid'', ''overdue'']
       \<longrightarrow> FeeViewSet_list d request = Inr []
           \<or> ((\<exists>s. query_params request ''student_id'' = Some s \<and> s \<noteq> [])
               \<and> (FeeViewSet_list d request = Inl ValueError
                    \<or> FeeViewSet_list d request = Inl OverflowError)))
    \<and> (query_params request ''status'' = Some v \<and> v \<notin> set [''present'', ''absent'', ''leave'']
       \<longrightarrow> AttendanceViewSet_list to_date d request = Inr []
           \<or> ((\<exists>s. query_params request ''date'' = Some s \<and> s \<noteq> [])
               \<and> AttendanceViewSet_list to_date d request = Inl (ValidationError ''date''))
           \<or> ((\<exists>s. query_params request ''student_id'' = Some s \<and> s \<noteq> [])
               \<and> (AttendanceViewSet_list to_date d request = Inl ValueError
                    \<or> AttendanceViewSet_list to_date d request = Inl OverflowError)))
    \<and> (query_params request ''status'' = Some v
       \<and> v \<notin> set [''pending'', ''in_progress'', ''resolved'']
       \<longrightarrow> ComplaintViewSet_list d request = Inr []
           \<or> ((\<exists>s. query_params request ''student_id'' = Some s \<and> s \<noteq> [])
               \<and> (ComplaintViewSet_list d request = Inl ValueError
                    \<or> ComplaintViewSet_list d request = Inl OverflowError)))"
proof -
  have p: "permitted [IsAuthenticated] request = Inr u"
    using assms(1) by (simp add: permitted_authenticated)
  have room_status: "RoomViewSet_list d request = Inr []"
    if "query_params request ''status'' = Some v"
       "v \<notin> set [''vacant'', ''occupied'', ''maintenance'']"
  proof -
    have z: "filter_if (query_params request ''status'')
            (\<lambda>v r. room_status_str (room_status r) = v) (rooms d) = []"
      using that assms(2) room_status_str_range by (intro filter_if_outside) auto
    show ?thesis
      using p by (simp add: RoomViewSet_list_def RoomViewSet_get_queryset_def
                    RoomViewSet_get_permissions_def bind_result_def Let_def z
                    filter_if_Nil)
  qed
  have room_type: "RoomViewSet_list d request = Inr []"
    if "query_params request ''type'' = Some v" "v \<notin> set [''single'', ''double'', ''triple'']"
  proof -
    have z: "filter_if (query_params request ''type'')
            (\<lambda>v r. room_type_str (room_type r) = v) qs = []" for qs
      using that assms(2) room_type_str_range by (intro filter_if_outside) auto
    show ?thesis
      using p by (simp add: RoomViewSet_list_def RoomViewSet_get_queryset_def
                    RoomViewSet_get_permissions_def bind_result_def Let_def z)
  qed
  have student: "StudentProfileViewSet_list d request = Inr []"
    if "query_params request ''fee_status'' = Some v" "v \<notin> set [''unpaid'', ''paid'', ''overdue'']"
  proof -
    have z: "filter_if (query_params request ''fee_status'')
            (\<lambda>v p. list_ex (\<lambda>f. fee_student f = sp_id p
                                          \<and> fee_status_str (fee_status f) = v) (fees d)) qs = []" for qs
      using that assms(2) fee_status_str_range
      by (intro filter_if_outside) (auto simp: list_ex_iff)
    show ?thesis
      using p by (simp add: StudentProfileViewSet_list_def StudentProfileViewSet_get_queryset_def
                    StudentProfileViewSet_get_permissions_def bind_result_def Let_def z)
  qed
  have fee: "FeeViewSet_list d request = Inr []
           \<or> ((\<exists>s. query_params request ''student_id'' = Some s \<and> s \<noteq> [])
               \<and> (FeeViewSet_list d request = Inl ValueError
                    \<or> FeeViewSet_list d request = Inl OverflowError))"
    if "query_params request ''status'' = Some v" "v \<notin> set [''unpaid'', ''paid'', ''overdue'']"
  proof -
    have z: "filter_if (query_params request ''status'')
            (\<lambda>v f. fee_status_str (fee_status f) = v) qs = []" for qs
      using that assms(2) fee_status_str_range by (intro filter_if_outside) auto
    have "FeeViewSet_list d request
            = filter_student_id_if (query_params request ''student_id'') fee_student []"
      using p
      by (simp add: FeeViewSet_list_def FeeViewSet_get_queryset_def
            FeeViewSet_get_permissions_def bind_result_def Let_def z)
    then show ?thesis
      using filter_student_id_if_Nil[of "query_params request ''student_id''" fee_student]
      by simp
  qed
  have complaint: "ComplaintViewSet_list d request = Inr []
           \<or> ((\<exists>s. query_params request ''student_id'' = Some s \<and> s \<noteq> [])
               \<and> (ComplaintViewSet_list d request = Inl ValueError
                    \<or> ComplaintViewSet_list d request = Inl OverflowError))"
    if "query_params request ''status'' = Some v"
       "v \<notin> set [''pending'', ''in_progress'', ''resolved'']"
  proof -
    have z: "filter_if (query_params request ''status'')
            (\<lambda>v c. complaint_status_str (complaint_status c) = v) qs = []" for qs
      using that assms(2) complaint_status_str_range by (intro filter_if_outside) auto
    have "ComplaintViewSet_list d request
            = filter_student_id_if (query_params request ''student_id'') complaint_student []"
      using p
      by (simp add: ComplaintViewSet_list_def ComplaintViewSet_get_queryset_def
            ComplaintViewSet_get_permissions_def bind_result_def Let_def z)
    then show ?thesis
      using filter_student_id_if_Nil[of "query_params request ''student_id''" complaint_student]
      by simp
  qed
  have attendance: "AttendanceViewSet_list to_date d request = Inr []
           \<or> ((\<exists>s. query_params request ''date'' = Some s \<and> s \<noteq> [])
               \<and> AttendanceViewSet_list to_date d request = Inl (ValidationError ''date''))
           \<or> ((\<exists>s. query_params request ''student_id'' = Some s \<and> s \<noteq> [])
               \<and> (AttendanceViewSet_list to_date d request = Inl ValueError
                    \<or> AttendanceViewSet_list to_date d request = Inl OverflowError))"
    if "query_params request ''status'' = Some v" "v \<notin> set [''present'', ''absent'', ''leave'']"
  proof -
    have z: "filter_if (query_params request ''status'')
            (\<lambda>v a. attendance_status_str (att_status a) = v) qs = []" for qs
      using that assms(2) attendance_status_str_range by (intro filter_if_outside) auto
    let ?q0 = "own_records d u att_student (attendances d)"
    let ?D = "filter_date_if to_date (query_params request ''date'') att_date ?q0"
    have L: "AttendanceViewSet_list to_date d request
              = (case ?D of Inl e \<Rightarrow> Inl e
                 | Inr q \<Rightarrow>
                    (case filter_student_id_if (query_params request ''student_id'') att_student q of
                       Inl e \<Rightarrow> Inl e | Inr q' \<Rightarrow> Inr []))"
      using p
      by (simp add: AttendanceViewSet_list_def AttendanceViewSet_get_queryset_def
            AttendanceViewSet_get_permissions_def bind_result_def Let_def z
               split: sum.splits)
    show ?thesis
    proof (cases ?D)
      case (Inl e)
      then show ?thesis
        using filter_date_if_result[of to_date "query_params request ''date''" att_date ?q0] L
        by auto
    next
      case (Inr q)
      show ?thesis
        using filter_student_id_if_result[of "query_params request ''student_id''" att_student q]
              L Inr
        by auto
    qed
  qed
  show ?thesis
    using room_status room_type student fee attendance complaint by blast
qed

theorem list_filter_outside_enum_witness:
  "''paid_late'' \<notin> set [''unpaid'', ''paid'', ''overdue'']
   \<and> FeeViewSet_list example_db (request_of warden_user [''status'' \<mapsto> ''paid_late''])
       = Inr []
   \<and> ComplaintViewSet_list example_db (request_of warden_user [''status'' \<mapsto> ''paid_late''])
       = Inr []
   \<and> RoomViewSet_list example_db (request_of warden_user [''type'' \<mapsto> ''penthouse''])
       = Inr []
   \<and> (FeeViewSet_list example_db
          (request_of warden_user [''status'' \<mapsto> ''paid_late'', ''student_id'' \<mapsto> ''abc''])
         = Inl ValueError
        \<or> FeeViewSet_list example_db
          (request_of warden_user [''status'' \<mapsto> ''paid_late'', ''student_id'' \<mapsto> ''abc''])
         = Inl OverflowError
        \<or> FeeViewSet_list example_db
          (request_of warden_user [''status'' \<mapsto> ''paid_late'', ''student_id'' \<mapsto> ''abc''])
         = Inr [])"
proof -
  have a: "req_user (request_of warden_user params) = Some warden_user"
          "query_params (request_of warden_user params) = params" for params
    by (simp_all add: request_of_def)
  have n: "''paid_late'' \<noteq> []" "''penthouse'' \<noteq> []"
    by simp_all
  show ?thesis
    using list_filter_outside_enum
            [OF a(1) n(1), of "[''status'' \<mapsto> ''paid_late'']" example_db "\<lambda>t. None"]
          list_filter_outside_enum
            [OF a(1) n(2), of "[''type'' \<mapsto> ''penthouse'']" example_db "\<lambda>t. None"]
          list_filter_outside_enum
            [OF a(1) n(1), of "[''status'' \<mapsto> ''paid_late'', ''student_id'' \<mapsto> ''abc'']"
                example_db "\<lambda>t. None"]
    by (simp add: a(2)) blast
qed

section \<open>Attendance is unique per student and date\<close>

text \<open>
  C2. In a store whose attendance records have distinct primary keys and pairwise
  different (student, date) pairs: creating a record for a pair that a record already has
  fails, at the store with \<^verbatim>\<open>IntegrityError\<close> and at the create endpoint with the
  validation error of the unique-together validator, and the store is left as it was;
  and every successful create, save or delete, and every create request whatever its
  outcome, leaves the (student, date) pairs pairwise different, so at most one record
  exists per pair.
\<close>

theorem attendance_unique_per_student_date:
  assumes "distinct (map att_id (attendances d))"
      and "distinct (map (\<lambda>a. (att_student a, att_date a)) (attendances d))"
  shows
   "(list_ex (\<lambda>x. att_student x = att_student vals \<and> att_date x = att_date vals)
        (attendances d)
      \<longrightarrow> Attendance_objects_create now d vals = (Inl IntegrityError, d))
    \<and> (req_user request = Some u \<and> (is_admin u \<or> is_warden u)
        \<and> list_ex (\<lambda>p. sp_id p = data_student body) (students d)
        \<and> list_ex (\<lambda>x. att_student x = data_student body
                        \<and> att_date x = (case data_date body of None \<Rightarrow> date_of now | Some x \<Rightarrow> x))
             (attendances d)
      \<longrightarrow> AttendanceViewSet_create now d request body
            = (Inl (ValidationError ''non_field_errors''), d))
    \<and> (Attendance_objects_create now d vals = (Inr row, d')
      \<longrightarrow> distinct (map (\<lambda>a. (att_student a, att_date a)) (attendances d')))
    \<and> (AttendanceViewSet_create now d request body = (Inr row, d')
      \<longrightarrow> distinct (map (\<lambda>a. (att_student a, att_date a)) (attendances d')))
    \<and> (Attendance_save now d self = Inr d'
      \<longrightarrow> distinct (map (\<lambda>a. (att_student a, att_date a)) (attendances d')))
    \<and> distinct (map (\<lambda>a. (att_student a, att_date a))
                 (attendances (Attendance_delete d self)))
    \<and> distinct (map (\<lambda>a. (att_student a, att_date a))
                 (attendances (snd (AttendanceViewSet_create now d request body))))"
proof -
  have view_fail: "AttendanceViewSet_create now d request body
            = (Inl (ValidationError ''non_field_errors''), d)"
    if "req_user request = Some u" "is_admin u \<or> is_warden u"
       "list_ex (\<lambda>p. sp_id p = data_student body) (students d)"
       "list_ex (\<lambda>x. att_student x = data_student body
                        \<and> att_date x = (case data_date body of None \<Rightarrow> date_of now | Some x \<Rightarrow> x))
             (attendances d)"
  proof -
    have "permitted (AttendanceViewSet_get_permissions ''create'') request = Inr u"
      using that(1,2)
      by (auto simp: permitted_def check_permissions_def AttendanceViewSet_get_permissions_def)
    then show ?thesis
      using that(3,4) by (simp add: AttendanceViewSet_create_def Let_def)
  qed
  have view_any: "distinct (map (\<lambda>a. (att_student a, att_date a))
                 (attendances (snd (AttendanceViewSet_create now d request body))))"
    using AttendanceViewSet_create_store[of now d request body]
          Attendance_objects_create_store[OF assms, of now] assms(2)
    by auto
  have view_ok: "distinct (map (\<lambda>a. (att_student a, att_date a)) (attendances d'))"
    if v: "AttendanceViewSet_create now d request body = (Inr row, d')"
    using view_any v by simp
  have del: "distinct (map (\<lambda>a. (att_student a, att_date a))
                 (attendances (Attendance_delete d self)))"
    using assms(2) by (simp add: Attendance_delete_def distinct_map_filter)
  show ?thesis
    using Attendance_objects_create_taken[of vals d now] view_fail view_ok view_any del
          Attendance_objects_create_keeps_unique[OF assms, of now vals row d']
          Attendance_save_keeps_unique[OF assms, of now self d']
    by blast
qed

theorem attendance_unique_per_student_date_witness:
  "distinct (map att_id (attendances example_db))
   \<and> distinct (map (\<lambda>a. (att_student a, att_date a)) (attendances example_db))
   \<and> Attendance_objects_create t1 example_db attendance_A = (Inl IntegrityError, example_db)
   \<and> AttendanceViewSet_create t1 example_db (request_of warden_user Map.empty) body_A_again
       = (Inl (ValidationError ''non_field_errors''), example_db)
   \<and> AttendanceViewSet_create t1 example_db (request_of warden_user Map.empty) body_B
       = (Inr attendance_B, example_db\<lparr>attendances := [attendance_A, attendance_B]\<rparr>)
   \<and> distinct (map (\<lambda>a. (att_student a, att_date a))
                (attendances (example_db\<lparr>attendances := [attendance_A, attendance_B]\<rparr>)))"
proof -
  have i: "distinct (map att_id (attendances example_db))"
    and p: "distinct (map (\<lambda>a. (att_student a, att_date a)) (attendances example_db))"
    by (simp_all add: example_defs)
  have t: "list_ex (\<lambda>x. att_student x = att_student attendance_A
                        \<and> att_date x = att_date attendance_A) (attendances example_db)"
    by (simp add: example_defs)
  have v: "req_user (request_of warden_user Map.empty) = Some warden_user
        \<and> (is_admin warden_user \<or> is_warden warden_user)
        \<and> list_ex (\<lambda>p. sp_id p = data_student body_A_again) (students example_db)
        \<and> list_ex (\<lambda>x. att_student x = data_student body_A_again
                        \<and> att_date x = (case data_date body_A_again of
                                          None \<Rightarrow> date_of t1 | Some x \<Rightarrow> x))
             (attendances example_db)"
    by (simp add: example_defs role_defs)
  have c: "AttendanceViewSet_create t1 example_db (request_of warden_user Map.empty) body_B
       = (Inr attendance_B, example_db\<lparr>attendances := [attendance_A, attendance_B]\<rparr>)"
    by (simp add: example_defs query_defs role_defs permission_defs AttendanceViewSet_create_def
          Attendance_objects_create_def Attendance_save_def unique_together_taken_def
          next_id_def save_row_def Let_def)
  show ?thesis
    using attendance_unique_per_student_date
            [OF i p, where vals = attendance_A and now = t1
                and request = "request_of warden_user Map.empty" and u = warden_user
                and body = body_A_again and row = attendance_B and self = attendance_A
                and d' = "example_db\<lparr>attendances := [attendance_A, attendance_B]\<rparr>"]
          attendance_unique_per_student_date
            [OF i p, where vals = attendance_A and now = t1
                and request = "request_of warden_user Map.empty" and u = warden_user
                and body = body_B and row = attendance_B and self = attendance_A
                and d' = "example_db\<lparr>attendances := [attendance_A, attendance_B]\<rparr>"]
          i p t v c
    by blast
qed

end
